theory Spec2Isabelle
  imports Complex_Main
begin

section \<open>Data model\<close>

text \<open>
  Embedding of \<^verbatim>\<open>backend/smart_summary_service.py\<close> (class \<^verbatim>\<open>SmartSummaryService\<close>).

  A Python number (a feature score, an average, a threshold) is modelled by the
  \<^typ>\<open>real\<close> it denotes, so comparisons are exact, as they are on floats. The result
  of a float operation is the exact result rounded to a float: the rounding is the
  parameter \<open>fl\<close> of every function that computes (Python rounds to the nearest
  double, a test can take \<open>id\<close> where every intermediate result is representable).
  A Python \<^verbatim>\<open>dict\<close> that is iterated is an association list in insertion
  order; \<^verbatim>\<open>d.get(k, default)\<close> is \<open>dict_get\<close>.
\<close>

datatype error = StatisticsError

definition dict_get :: "('k \<times> 'v) list \<Rightarrow> 'k \<Rightarrow> 'v \<Rightarrow> 'v" where
  "dict_get d k dflt = (case map_of d k of None \<Rightarrow> dflt | Some v \<Rightarrow> v)"

text \<open>
  One analysis entry (the current analysis or a historical one). The code reads it only
  through \<^verbatim>\<open>.get('features', {})\<close>, \<^verbatim>\<open>.get('sleep_score', 0)\<close> and
  \<^verbatim>\<open>.get('skin_health_score', 0)\<close>, so an absent key is the same as its default.
\<close>

record sample =
  features :: "(string \<times> real) list"
  sleep_score :: real
  skin_health_score :: real

text \<open>The routine: both keys may be absent, and the code uses different defaults for them.\<close>

record routine =
  sleep_hours :: "real option"
  water_intake :: "real option"

text \<open>The dataclass \<^verbatim>\<open>FeatureTrend\<close>.\<close>

record feature_trend =
  feature_name :: string
  current_value :: real
  previous_value :: real
  change :: real
  change_percentage :: real
  trend :: string
  duration_days :: nat
  significance :: string

subsection \<open>Configuration of \<^verbatim>\<open>__init__\<close>\<close>

definition IMPROVEMENT_THRESHOLD :: real where
  "IMPROVEMENT_THRESHOLD = 2"

definition DECLINE_THRESHOLD :: real where
  "DECLINE_THRESHOLD = - 2"

definition STAGNATION_THRESHOLD :: real where
  "STAGNATION_THRESHOLD = 1 / 2"

definition STAGNATION_DURATION :: nat where
  "STAGNATION_DURATION = 14"

definition FEATURE_RANGES :: "(string \<times> (string \<times> real) list) list" where
  "FEATURE_RANGES =
    [(''dark_circles'', [(''excellent'', 75), (''good'', 60), (''fair'', 45), (''poor'', 30)]),
     (''puffiness'', [(''excellent'', 70), (''good'', 55), (''fair'', 40), (''poor'', 25)]),
     (''brightness'', [(''excellent'', 80), (''good'', 65), (''fair'', 50), (''poor'', 35)]),
     (''wrinkles'', [(''excellent'', 75), (''good'', 60), (''fair'', 45), (''poor'', 30)]),
     (''texture'', [(''excellent'', 75), (''good'', 60), (''fair'', 45), (''poor'', 30)]),
     (''pore_size'', [(''excellent'', 70), (''good'', 55), (''fair'', 40), (''poor'', 25)])]"

definition FEATURE_NAMES :: "(string \<times> string) list" where
  "FEATURE_NAMES =
    [(''dark_circles'', ''Dark Circles''),
     (''puffiness'', ''Eye Puffiness''),
     (''brightness'', ''Skin Brightness''),
     (''wrinkles'', ''Fine Lines''),
     (''texture'', ''Skin Texture''),
     (''pore_size'', ''Pore Size'')]"

section \<open>Trend analysis: \<^verbatim>\<open>_analyze_feature_trends\<close>\<close>

text \<open>
  \<^verbatim>\<open>statistics.mean\<close> raises \<^verbatim>\<open>StatisticsError\<close> on empty data. Otherwise it sums
  the data as exact fractions, divides, and converts the quotient to a float: one
  rounding of the exact mean.
\<close>

definition statistics_mean :: "(real \<Rightarrow> real) \<Rightarrow> real list \<Rightarrow> error + real" where
  "statistics_mean fl xs =
     (if xs = [] then Inl StatisticsError else Inr (fl (sum_list xs / real (length xs))))"

text \<open>
  The two windows. \<^verbatim>\<open>h[-7:]\<close> is \<open>drop (length h - 7) h\<close>, \<^verbatim>\<open>h[-14:-7]\<close> (taken
  only when there are 14 entries) is \<open>take 7 (drop (length h - 14) h)\<close>.
\<close>

definition recent_period :: "'a list \<Rightarrow> 'a list" where
  "recent_period historical_data =
     (if length historical_data \<ge> 7 then drop (length historical_data - 7) historical_data
      else historical_data)"

definition comparison_period :: "'a list \<Rightarrow> 'a list" where
  "comparison_period historical_data =
     (if length historical_data \<ge> 7 then
        (if length historical_data \<ge> 14
         then take 7 (drop (length historical_data - 14) historical_data)
         else take 7 historical_data)
      else
        (if length historical_data > 1
         then take (length historical_data div 2) historical_data
         else take 1 historical_data))"

text \<open>The values of one feature over a window: \<^verbatim>\<open>entry.get('features', {}).get(feature_key, 0)\<close>.\<close>

definition feature_values :: "string \<Rightarrow> sample list \<Rightarrow> real list" where
  "feature_values feature_key period =
     map (\<lambda>entry. dict_get (features entry) feature_key 0) period"

text \<open>The ladder that determines \<^verbatim>\<open>trend\<close> and \<^verbatim>\<open>significance\<close> from \<^verbatim>\<open>change\<close>.\<close>

definition determine_trend :: "real \<Rightarrow> string \<times> string" where
  "determine_trend chg =
     (if chg \<ge> IMPROVEMENT_THRESHOLD then
        (''improving'', if \<bar>chg\<bar> \<ge> 5 then ''significant'' else ''moderate'')
      else if chg \<le> DECLINE_THRESHOLD then
        (''declining'', if \<bar>chg\<bar> \<ge> 5 then ''significant'' else ''moderate'')
      else if \<bar>chg\<bar> \<le> STAGNATION_THRESHOLD then
        (''stagnant'', ''none'')
      else
        (''stable'', ''minor''))"

text \<open>The body of the loop over \<^verbatim>\<open>current_features.items()\<close>.\<close>

definition analyze_feature ::
  "(real \<Rightarrow> real) \<Rightarrow> sample list \<Rightarrow> sample list \<Rightarrow> string \<times> real
     \<Rightarrow> error + feature_trend" where
  "analyze_feature fl recent comparison item =
     (case item of (feature_key, cur_value) \<Rightarrow>
        (case statistics_mean fl (feature_values feature_key recent) of
           Inl e \<Rightarrow> Inl e
         | Inr recent_avg \<Rightarrow>
             (case (if comparison \<noteq> []
                    then statistics_mean fl (feature_values feature_key comparison)
                    else Inr cur_value) of
                Inl e \<Rightarrow> Inl e
              | Inr previous_avg \<Rightarrow>
                  (let chg = fl (recent_avg - previous_avg);
                       pct = (if previous_avg \<noteq> 0
                              then fl (fl (chg / \<bar>previous_avg\<bar>) * 100) else 0);
                       ts = determine_trend chg
                   in Inr \<lparr>feature_name = feature_key,
                           current_value = cur_value,
                           previous_value = previous_avg,
                           change = chg,
                           change_percentage = pct,
                           trend = fst ts,
                           duration_days = length recent,
                           significance = snd ts\<rparr>))))"

text \<open>A loop whose body may raise: the first error ends it.\<close>

fun collect :: "('a \<Rightarrow> error + 'b) \<Rightarrow> 'a list \<Rightarrow> error + 'b list" where
  "collect f [] = Inr []"
| "collect f (x # xs) =
     (case f x of
        Inl e \<Rightarrow> Inl e
      | Inr y \<Rightarrow> (case collect f xs of Inl e \<Rightarrow> Inl e | Inr ys \<Rightarrow> Inr (y # ys)))"

definition analyze_feature_trends ::
  "(real \<Rightarrow> real) \<Rightarrow> sample \<Rightarrow> sample list \<Rightarrow> error + feature_trend list" where
  "analyze_feature_trends fl current_analysis historical_data =
     collect (analyze_feature fl (recent_period historical_data)
                              (comparison_period historical_data))
             (features current_analysis)"

section \<open>Change detection and stagnation\<close>

text \<open>\<^verbatim>\<open>_detect_significant_changes\<close>\<close>

definition detect_significant_changes :: "feature_trend list \<Rightarrow> feature_trend list" where
  "detect_significant_changes feature_trends =
     filter (\<lambda>t. significance t \<in> set [''significant'', ''moderate'']) feature_trends"

text \<open>
  \<^verbatim>\<open>statistics.variance\<close> is the sample variance (divisor \<open>n - 1\<close>); it raises on fewer
  than two data points, and the code calls it only when \<^verbatim>\<open>len(values) > 1\<close>. Like
  the mean it is computed on exact fractions and rounded once, when the result is
  converted to a float (Python 3.11 and later). \<open>sample_variance\<close> is the exact value.
\<close>

definition sample_variance :: "real list \<Rightarrow> real" where
  "sample_variance xs =
     (let m = sum_list xs / real (length xs)
      in (\<Sum>x\<leftarrow>xs. (x - m)\<^sup>2) / real (length xs - 1))"

text \<open>
  The body of the loop of \<^verbatim>\<open>_detect_stagnation\<close> for one key of the current features;
  \<^verbatim>\<open>current_features[feature_key]\<close> is the value of the item.
\<close>

definition stagnant_item :: "(real \<Rightarrow> real) \<Rightarrow> sample list \<Rightarrow> string \<times> real \<Rightarrow> bool" where
  "stagnant_item fl period item =
     (case item of (feature_key, cur_value) \<Rightarrow>
        (let vals = feature_values feature_key period in
         if vals = [] then False
         else
           (let variance = (if length vals > 1 then fl (sample_variance vals) else 0);
                total_change = \<bar>fl (last vals - hd vals)\<bar>
            in if variance < 2 \<and> total_change < 2
               then cur_value < dict_get (dict_get FEATURE_RANGES feature_key []) ''good'' 60
               else False)))"

definition detect_stagnation ::
  "(real \<Rightarrow> real) \<Rightarrow> sample list \<Rightarrow> sample \<Rightarrow> string list" where
  "detect_stagnation fl historical_data current_analysis =
     (if length historical_data < STAGNATION_DURATION then []
      else
        (let period = drop (length historical_data - STAGNATION_DURATION) historical_data
         in map fst (filter (stagnant_item fl period) (features current_analysis))))"

section \<open>Message texts\<close>

text \<open>
  The message templates are f-strings. Python's conversion of a number to text is a
  parameter of the model: \<open>str_num\<close> is \<^verbatim>\<open>str(x)\<close>, \<open>str_int\<close> is \<^verbatim>\<open>str\<close> of an
  \<^verbatim>\<open>int\<close>, and \<open>fmt_f n\<close> is the format \<^verbatim>\<open>{x:.nf}\<close>. Strings are ASCII here: the
  emoji that starts most templates (and the blank after it) is left out, and a dash
  outside ASCII is written \<open>-\<close>.
\<close>

record pyformat =
  str_num :: "real \<Rightarrow> string"
  str_int :: "int \<Rightarrow> string"
  fmt_f :: "nat \<Rightarrow> real \<Rightarrow> string"

definition str_opt :: "pyformat \<Rightarrow> real option \<Rightarrow> string" where
  "str_opt F v = (case v of None \<Rightarrow> ''None'' | Some x \<Rightarrow> str_num F x)"

definition opt_get :: "'a option \<Rightarrow> 'a \<Rightarrow> 'a" where
  "opt_get v dflt = (case v of None \<Rightarrow> dflt | Some x \<Rightarrow> x)"

text \<open>\<^verbatim>\<open>int(x)\<close> truncates towards zero.\<close>

definition py_int :: "real \<Rightarrow> int" where
  "py_int x = (if x \<ge> 0 then \<lfloor>x\<rfloor> else \<lceil>x\<rceil>)"

definition display_name :: "string \<Rightarrow> string" where
  "display_name feature_key = dict_get FEATURE_NAMES feature_key feature_key"

section \<open>Daily summary: \<^verbatim>\<open>_generate_daily_summary\<close>\<close>

definition generate_daily_summary ::
  "pyformat \<Rightarrow> sample \<Rightarrow> feature_trend list \<Rightarrow> feature_trend list \<Rightarrow> string list \<Rightarrow> routine
     \<Rightarrow> string" where
  "generate_daily_summary F current_analysis feature_trends significant_changes
       stagnant_feats rout =
     (let sleep = str_num F (sleep_score current_analysis);
          skin = str_num F (skin_health_score current_analysis);
          improving = length (filter (\<lambda>t. trend t = ''improving'') feature_trends);
          declining = length (filter (\<lambda>t. trend t = ''declining'') feature_trends)
      in
        if improving \<ge> 3 \<and> declining = 0 then
          ''Excellent progress! '' @
          (''Your Sleep Score is '' @ sleep @ '' and Skin Health is '' @ skin @
           ''. Multiple features are improving-your routine is working beautifully! Keep going!'')
        else if improving \<ge> 2 \<and> declining \<le> 1 then
          ''Good progress! '' @
          (''Sleep Score: '' @ sleep @ '', Skin Health: '' @ skin @
           ''. You're seeing positive changes in '' @ str_int F (int improving) @
           '' areas. Stay consistent with your routine!'')
        else if length stagnant_feats \<ge> 3 then
          ''Time for changes. '' @
          (''Sleep Score: '' @ sleep @ '', Skin Health: '' @ skin @
           ''. Some features have plateaued for 2+ weeks. Consider adjusting your routine for better results.'')
        else if declining \<ge> 2 then
          ''Needs attention. '' @
          (''Sleep Score: '' @ sleep @ '', Skin Health: '' @ skin @ ''. '' @
           str_int F (int declining) @
           '' features are declining. Review your sleep and skincare routine-something may need adjustment.'')
        else
          ''Steady progress. '' @
          (''Sleep Score: '' @ sleep @ '', Skin Health: '' @ skin @
           ''. Your routine is maintaining stability. Stay consistent for continued results!''))"

section \<open>Key insights: \<^verbatim>\<open>_generate_key_insights\<close>\<close>

definition improved_insight :: "pyformat \<Rightarrow> feature_trend \<Rightarrow> string" where
  "improved_insight F t =
     display_name (feature_name t) @ '' improved by '' @ fmt_f F 1 \<bar>change t\<bar> @
     '' points ('' @ fmt_f F 0 \<bar>change_percentage t\<bar> @ ''%) - your efforts are paying off!''"

definition declined_insight :: "pyformat \<Rightarrow> feature_trend \<Rightarrow> string" where
  "declined_insight F t =
     display_name (feature_name t) @ '' declined by '' @ fmt_f F 1 \<bar>change t\<bar> @
     '' points - may need immediate attention''"

definition stagnation_insight :: "string \<Rightarrow> string" where
  "stagnation_insight feature_key =
     display_name feature_key @
     '' hasn't improved in 2+ weeks - consider trying different products or methods''"

definition excellent_insight :: "pyformat \<Rightarrow> feature_trend \<Rightarrow> string" where
  "excellent_insight F t =
     display_name (feature_name t) @ '' is excellent ('' @ fmt_f F 0 (current_value t) @
     ''/100) - maintain your current routine!''"

text \<open>One round of the last loop: an excellent feature is added while fewer than 5 insights exist.\<close>

definition add_excellent :: "pyformat \<Rightarrow> string list \<Rightarrow> feature_trend \<Rightarrow> string list" where
  "add_excellent F insights t =
     (if current_value t \<ge> dict_get (dict_get FEATURE_RANGES (feature_name t) []) ''excellent'' 75
      then (if length insights < 5 then insights @ [excellent_insight F t] else insights)
      else insights)"

definition generate_key_insights ::
  "pyformat \<Rightarrow> feature_trend list \<Rightarrow> feature_trend list \<Rightarrow> string list \<Rightarrow> string list" where
  "generate_key_insights F feature_trends significant_changes stagnant_feats =
     (let insights1 = map (improved_insight F)
                          (filter (\<lambda>t. trend t = ''improving'') significant_changes);
          insights2 = insights1 @ map (declined_insight F)
                          (filter (\<lambda>t. trend t = ''declining'') significant_changes);
          insights3 = insights2 @ map stagnation_insight stagnant_feats;
          insights4 = foldl (add_excellent F) insights3 feature_trends
      in take 6 insights4)"

section \<open>Recommendations\<close>

text \<open>\<^verbatim>\<open>_get_feature_recommendations\<close>: at most one text, none for an unknown feature key.\<close>

definition get_feature_recommendations ::
  "string \<Rightarrow> string \<Rightarrow> real \<Rightarrow> routine \<Rightarrow> string list" where
  "get_feature_recommendations feature_key status cur_value rout =
     (let nm = display_name feature_key in
      if feature_key = ''dark_circles'' then
        (if status = ''declining''
         then [nm @ '' declining - prioritize 8+ hours sleep, use caffeine eye cream'']
         else [nm @ '' stagnant - try vitamin K serum or cold compress''])
      else if feature_key = ''puffiness'' then
        (if status = ''declining''
         then [nm @ '' worsening - reduce sodium, sleep elevated, increase water'']
         else [nm @ '' stagnant - try ice roller, avoid salty foods''])
      else if feature_key = ''brightness'' then
        (if status = ''declining''
         then [nm @ '' declining - add vitamin C serum, use SPF 50+ daily'']
         else [nm @ '' stagnant - try gentle exfoliation 2x/week''])
      else if feature_key = ''wrinkles'' then
        (if status = ''declining''
         then [nm @ '' worsening - consider retinol 0.3%, use SPF, hydrate well'']
         else [nm @ '' stagnant - try peptide serum or increase retinol strength''])
      else if feature_key = ''texture'' then
        (if status = ''declining''
         then [nm @ '' declining - use AHA/BHA exfoliant, add hyaluronic acid'']
         else [nm @ '' stagnant - try niacinamide 5-10% serum''])
      else if feature_key = ''pore_size'' then
        (if status = ''declining''
         then [nm @ '' worsening - use salicylic acid cleanser, clay mask 2x/week'']
         else [nm @ '' stagnant - try niacinamide serum, double cleanse''])
      else [])"

text \<open>\<^verbatim>\<open>_get_lifestyle_recommendation\<close>: an absent key of the routine reads as 0.\<close>

definition get_lifestyle_recommendation :: "pyformat \<Rightarrow> routine \<Rightarrow> string" where
  "get_lifestyle_recommendation F rout =
     (let sleep = opt_get (sleep_hours rout) 0;
          water = opt_get (water_intake rout) 0
      in
        if sleep < 6 then
          ''Prioritize getting 7-9 hours of quality sleep each night for optimal skin repair and regeneration.''
        else if sleep < 7 then
          ''Aim for an additional hour of sleep to reach the optimal 7-9 hours for better skin health.''
        else if sleep \<ge> 7 \<and> sleep \<le> 9 then
          ''Great sleep routine! Continue maintaining '' @ str_int F (py_int sleep) @
          '' hours nightly to support your skin's natural recovery.''
        else if water < 6 then
          ''Increase water intake to 8+ glasses daily to improve skin hydration and flush out toxins.''
        else
          ''Keep up your healthy lifestyle habits - they're supporting your skin's natural glow!'')"

subsection \<open>The generative collaborator\<close>

text \<open>
  What \<^verbatim>\<open>llm_service.generate_smart_summary\<close> does is outside this code. Its outcome is
  one of: it raises; it returns something that fails the test
  \<^verbatim>\<open>ai_response and isinstance(ai_response, dict)\<close> (\<^verbatim>\<open>None\<close>, a list, the empty
  dict); it returns a dict, whose three keys read by the code may each be absent.
\<close>

record ai_dict =
  ai_recommendations :: "string list option"
  ai_natural_remedies :: "string list option"
  ai_product_recommendations :: "string list option"

datatype ai_response = LLMRaises | LLMOther | LLMDict ai_dict

text \<open>
  The request: the prompt is a fixed template around the five holes below, and the
  current analysis and the routine go with it.
\<close>

record llm_request =
  variation_seed :: string
  area1 :: string
  value1 :: real
  area2 :: string
  value2 :: real
  analysis_data :: sample
  routine_data :: routine

definition VARIATIONS :: "string list" where
  "VARIATIONS =
     [''Focus on innovative skincare'',
      ''Emphasize dermatologist-approved methods'',
      ''Prioritize evidence-based approaches'',
      ''Consider holistic skin wellness'']"

text \<open>\<^verbatim>\<open>random.choice\<close>: the random source is the number \<open>rnd\<close>, any of the four can come out.\<close>

definition random_choice :: "nat \<Rightarrow> string list \<Rightarrow> string" where
  "random_choice rnd xs = xs ! (rnd mod length xs)"

text \<open>\<^verbatim>\<open>sorted(features.items(), key=lambda x: x[1])[:2]\<close>: a stable sort on the score.\<close>

definition worst_features :: "sample \<Rightarrow> (string \<times> real) list" where
  "worst_features current_analysis = take 2 (sort_key snd (features current_analysis))"

definition build_request :: "nat \<Rightarrow> sample \<Rightarrow> routine \<Rightarrow> llm_request" where
  "build_request rnd current_analysis rout =
     (let worst = worst_features current_analysis;
          area1_key = (if length worst > 0 then fst (worst ! 0) else ''skin_health'');
          area2_key = (if length worst > 1 then fst (worst ! 1) else ''texture'')
      in \<lparr>variation_seed = random_choice rnd VARIATIONS,
          area1 = display_name area1_key,
          value1 = (if length worst > 0 then snd (worst ! 0) else 0),
          area2 = display_name area2_key,
          value2 = (if length worst > 1 then snd (worst ! 1) else 0),
          analysis_data = current_analysis,
          routine_data = rout\<rparr>)"

subsection \<open>\<^verbatim>\<open>_generate_ai_recommendations\<close>\<close>

text \<open>The function returns a dict on the generative path and a list from the fallback.\<close>

record rec_dict =
  rec_recommendations :: "string list"
  rec_natural_remedies :: "string list"
  rec_product_recommendations :: "string list"
  rec_lifestyle_tip :: string

datatype rec_result = RecDict rec_dict | RecList "string list"

text \<open>The \<^verbatim>\<open>except\<close> block: the rule-based recommendations.\<close>

definition fallback_recommendations ::
  "pyformat \<Rightarrow> sample \<Rightarrow> routine \<Rightarrow> feature_trend list \<Rightarrow> string list \<Rightarrow> string list" where
  "fallback_recommendations F current_analysis rout feature_trends stagnant_feats =
     (let declining = filter (\<lambda>t. trend t = ''declining'') feature_trends;
          recs1 = concat (map (\<lambda>t. get_feature_recommendations (feature_name t) ''declining''
                                      (current_value t) rout)
                              (take 2 declining));
          recs2 = recs1 @
                  concat (map (\<lambda>k. get_feature_recommendations k ''stagnant''
                                      (dict_get (features current_analysis) k 0) rout)
                              (take 2 stagnant_feats));
          recs3 = (if opt_get (sleep_hours rout) 8 < 7
                   then recs2 @ [''Increase sleep to 7-8 hours (currently '' @
                                 str_opt F (sleep_hours rout) @
                                 ''h) - critical for skin recovery and repair'']
                   else recs2);
          recs4 = (if opt_get (water_intake rout) 8 < 6
                   then recs3 @ [''Drink 8+ glasses of water daily (currently '' @
                                 str_opt F (water_intake rout) @
                                 '') for optimal skin hydration'']
                   else recs3)
      in take 8 recs4)"

text \<open>
  The whole function. With numbers for scores and hours and lists of texts in the
  response, nothing in the \<^verbatim>\<open>except\<close> block raises, so the result is always \<open>Inr\<close>;
  the sum type is kept for the callers, which handle an exception.
\<close>

definition generate_ai_recommendations ::
  "pyformat \<Rightarrow> (llm_request \<Rightarrow> ai_response) \<Rightarrow> nat \<Rightarrow> sample \<Rightarrow> routine \<Rightarrow>
     feature_trend list \<Rightarrow> string list \<Rightarrow> feature_trend list \<Rightarrow> error + rec_result" where
  "generate_ai_recommendations F llm rnd current_analysis rout feature_trends stagnant_feats
       significant_changes =
     (case llm (build_request rnd current_analysis rout) of
        LLMRaises \<Rightarrow>
          Inr (RecList (fallback_recommendations F current_analysis rout feature_trends
                          stagnant_feats))
      | LLMOther \<Rightarrow>
          Inr (RecList (fallback_recommendations F current_analysis rout feature_trends
                          stagnant_feats))
      | LLMDict d \<Rightarrow>
          (let ai_recs = opt_get (ai_recommendations d) [] in
           if ai_recs \<noteq> [] \<and> length ai_recs \<ge> 1 then
             (let lifestyle_rec = get_lifestyle_recommendation F rout;
                  natural_rems = opt_get (ai_natural_remedies d) [];
                  product_recs = opt_get (ai_product_recommendations d) [];
                  combined = (if lifestyle_rec \<noteq> [] then take 4 ai_recs @ [lifestyle_rec]
                              else take 4 ai_recs)
              in Inr (RecDict \<lparr>rec_recommendations = combined,
                               rec_natural_remedies = take 2 natural_rems,
                               rec_product_recommendations = take 2 product_recs,
                               rec_lifestyle_tip = lifestyle_rec\<rparr>))
           else
             Inr (RecList (fallback_recommendations F current_analysis rout feature_trends
                             stagnant_feats))))"

section \<open>The summary: \<^verbatim>\<open>generate_smart_summary\<close>\<close>

record trend_buckets =
  improving_features :: "string list"
  declining_features :: "string list"
  stagnant_features :: "string list"
  stable_features :: "string list"

record summary =
  daily_summary :: string
  key_insights :: "string list"
  recommendations :: "string list"
  natural_remedies :: "string list"
  product_recommendations :: "string list"
  lifestyle_tip :: "string option"
  trend_analysis :: trend_buckets
  model :: string
  provider :: string
  data_points_analyzed :: nat

text \<open>The insight of the branch for fewer than 2 historical entries.\<close>

definition baseline_insight :: "pyformat \<Rightarrow> string \<times> real \<Rightarrow> string" where
  "baseline_insight F item =
     (case item of (feature_key, v) \<Rightarrow>
        display_name feature_key @ '': '' @ fmt_f F 0 v @ ''/100 - looks good but can improve'')"

definition baseline_summary ::
  "pyformat \<Rightarrow> (llm_request \<Rightarrow> ai_response) \<Rightarrow> nat \<Rightarrow> sample \<Rightarrow> routine \<Rightarrow> sample list
     \<Rightarrow> summary" where
  "baseline_summary F llm rnd current_analysis rout historical_data =
     (let insights = map (baseline_insight F) (take 2 (sort_key snd (features current_analysis)));
          res = (case generate_ai_recommendations F llm rnd current_analysis rout [] [] [] of
                   Inr (RecDict d) \<Rightarrow>
                     (rec_recommendations d, rec_natural_remedies d,
                      rec_product_recommendations d, Some (rec_lifestyle_tip d))
                 | Inr (RecList l) \<Rightarrow> (l, [], [], None)
                 | Inl e \<Rightarrow> ([''Take daily selfies to track trends''], [], [], None))
      in (case res of (recs, natural, products, tip) \<Rightarrow>
        \<lparr>daily_summary =
           ''Welcome! Your baseline Sleep Score is '' @ str_num F (sleep_score current_analysis) @
           '' and Skin Health Score is '' @ str_num F (skin_health_score current_analysis) @
           ''. Keep taking daily selfies to track your progress!'',
         key_insights = take 5 insights,
         recommendations = take 6 recs,
         natural_remedies = natural,
         product_recommendations = products,
         lifestyle_tip = tip,
         trend_analysis = \<lparr>improving_features = [], declining_features = [],
                            stagnant_features = [],
                            stable_features = map fst (features current_analysis)\<rparr>,
         model = ''Hybrid (Local + AI) - TESTING MODE'',
         provider = ''internal + LLM'',
         data_points_analyzed = length historical_data\<rparr>))"

definition generate_smart_summary ::
  "(real \<Rightarrow> real) \<Rightarrow> pyformat \<Rightarrow> (llm_request \<Rightarrow> ai_response) \<Rightarrow> nat \<Rightarrow> sample \<Rightarrow> routine
     \<Rightarrow> sample list \<Rightarrow> error + summary" where
  "generate_smart_summary fl F llm rnd current_analysis rout historical_data =
     (if length historical_data < 2
      then Inr (baseline_summary F llm rnd current_analysis rout historical_data)
      else
        (case analyze_feature_trends fl current_analysis historical_data of
           Inl e \<Rightarrow> Inl e
         | Inr feature_trends \<Rightarrow>
            (let significant_changes = detect_significant_changes feature_trends;
                 stagnant_feats = detect_stagnation fl historical_data current_analysis;
                 daily = generate_daily_summary F current_analysis feature_trends
                           significant_changes stagnant_feats rout;
                 insights = generate_key_insights F feature_trends significant_changes
                              stagnant_feats
             in (case generate_ai_recommendations F llm rnd current_analysis rout feature_trends
                        stagnant_feats significant_changes of
                   Inl e \<Rightarrow> Inl e
                 | Inr rec_res \<Rightarrow>
                    (let res = (case rec_res of
                                  RecDict d \<Rightarrow>
                                    (rec_recommendations d, rec_natural_remedies d,
                                     rec_product_recommendations d, Some (rec_lifestyle_tip d))
                                | RecList l \<Rightarrow> (l, [], [], None))
                     in (case res of (recs, natural, products, tip) \<Rightarrow>
                       Inr \<lparr>daily_summary = daily,
                            key_insights = insights,
                            recommendations = recs,
                            natural_remedies = natural,
                            product_recommendations = products,
                            lifestyle_tip = tip,
                            trend_analysis =
                              \<lparr>improving_features =
                                 map feature_name
                                   (filter (\<lambda>t. trend t = ''improving'') feature_trends),
                               declining_features =
                                 map feature_name
                                   (filter (\<lambda>t. trend t = ''declining'') feature_trends),
                               stagnant_features = stagnant_feats,
                               stable_features =
                                 map feature_name
                                   (filter (\<lambda>t. trend t = ''stable'') feature_trends)\<rparr>,
                            model = ''Hybrid (Local + AI)'',
                            provider = ''internal + LLM'',
                            data_points_analyzed = length historical_data\<rparr>))))))"

section \<open>The windows as the specification words them\<close>

text \<open>
  These two definitions follow the specification's sentence, not the code: the recent
  window is the last \<open>min(7, N)\<close> samples; the comparison window is the 7 samples before
  the recent window when there are at least 14 samples, otherwise the first half of the
  series, or the first sample if there is only one. They are compared with
  \<open>recent_period\<close> and \<open>comparison_period\<close> above.
\<close>

definition spec_recent_window :: "'a list \<Rightarrow> 'a list" where
  "spec_recent_window hist = drop (length hist - min 7 (length hist)) hist"

definition spec_comparison_window :: "'a list \<Rightarrow> 'a list" where
  "spec_comparison_window hist =
     (if length hist \<ge> 14 then take 7 (drop (length hist - 14) hist)
      else if length hist = 1 then take 1 hist
      else take (length hist div 2) hist)"

text \<open>
  The arithmetic mean of a non-empty list, the scores of a feature over a window (0
  where a sample has no score for it), and the change of a feature as the specification
  words it, all in exact arithmetic.
\<close>

definition arithmetic_mean :: "real list \<Rightarrow> real" where
  "arithmetic_mean xs = sum_list xs / real (length xs)"

definition spec_scores :: "string \<Rightarrow> sample list \<Rightarrow> real list" where
  "spec_scores k window =
     map (\<lambda>entry. case map_of (features entry) k of None \<Rightarrow> 0 | Some v \<Rightarrow> v) window"

definition spec_change :: "string \<Rightarrow> sample list \<Rightarrow> real" where
  "spec_change k hist =
     arithmetic_mean (spec_scores k (spec_recent_window hist))
     - arithmetic_mean (spec_scores k (spec_comparison_window hist))"

section \<open>Properties\<close>

subsection \<open>The loop combinator\<close>

lemma collect_Inr_iff:
  "collect f xs = Inr ys \<longleftrightarrow> map f xs = map Inr ys"
proof (induction xs arbitrary: ys)
  case Nil
  then show ?case by auto
next
  case (Cons x xs)
  show ?case
  proof (cases "f x")
    case (Inl e)
    then show ?thesis by (cases ys) auto
  next
    case (Inr y)
    show ?thesis
    proof (cases "collect f xs")
      case (Inl e)
      with Inr Cons.IH show ?thesis by (cases ys) auto
    next
      case r: (Inr zs)
      with Inr Cons.IH [of zs] Cons.IH show ?thesis by (cases ys) auto
    qed
  qed
qed

lemma collect_Inr_member:
  assumes "collect f xs = Inr ys" and "y \<in> set ys"
  shows "\<exists>x \<in> set xs. f x = Inr y"
proof -
  from assms(1) have m: "map f xs = map Inr ys" by (simp add: collect_Inr_iff)
  from assms(2) have "Inr y \<in> set (map Inr ys)" by simp
  with m have "Inr y \<in> set (map f xs)" by simp
  then show ?thesis by auto
qed

subsection \<open>Trend classification\<close>

lemma analyze_feature_Inr:
  assumes "analyze_feature fl recent comparison item = Inr t"
  shows "trend t = fst (determine_trend (change t)) \<and>
         significance t = snd (determine_trend (change t)) \<and>
         feature_name t = fst item \<and> current_value t = snd item"
  using assms
  by (auto simp: analyze_feature_def Let_def split: prod.splits sum.splits if_splits)

text \<open>
  Claim C1. Every trend record that the analysis returns is classified from its
  \<open>change\<close> by the first matching rung: at least \<open>+2\<close> is improving, at most \<open>-2\<close> is
  declining, an absolute value of at most \<open>0.5\<close> is stagnant, anything else is stable.
  The significance is significant or moderate (by \<open>|change| \<ge> 5\<close>) for improving and
  declining, none for stagnant and minor for stable. The boundaries are inclusive:
  \<open>2\<close> is improving, \<open>-2\<close> declining, \<open>0.5\<close> stagnant, and \<open>0.51\<close> is stable.
\<close>

theorem trend_classification_ladder:
  "(\<forall>ts. analyze_feature_trends fl current_analysis historical_data = Inr ts \<longrightarrow>
      (\<forall>t \<in> set ts.
         trend t = (if change t \<ge> 2 then ''improving''
                    else if change t \<le> - 2 then ''declining''
                    else if \<bar>change t\<bar> \<le> 1 / 2 then ''stagnant''
                    else ''stable'') \<and>
         significance t = (if change t \<ge> 2 \<or> change t \<le> - 2
                           then (if \<bar>change t\<bar> \<ge> 5 then ''significant'' else ''moderate'')
                           else if \<bar>change t\<bar> \<le> 1 / 2 then ''none''
                           else ''minor''))) \<and>
   determine_trend 2 = (''improving'', ''moderate'') \<and>
   determine_trend (- 2) = (''declining'', ''moderate'') \<and>
   determine_trend (1 / 2) = (''stagnant'', ''none'') \<and>
   determine_trend (51 / 100) = (''stable'', ''minor'')"
proof -
  have ladder: "trend t = (if change t \<ge> 2 then ''improving''
                    else if change t \<le> - 2 then ''declining''
                    else if \<bar>change t\<bar> \<le> 1 / 2 then ''stagnant''
                    else ''stable'') \<and>
         significance t = (if change t \<ge> 2 \<or> change t \<le> - 2
                           then (if \<bar>change t\<bar> \<ge> 5 then ''significant'' else ''moderate'')
                           else if \<bar>change t\<bar> \<le> 1 / 2 then ''none''
                           else ''minor'')"
    if "analyze_feature_trends fl current_analysis historical_data = Inr ts" and "t \<in> set ts"
    for ts t
  proof -
    from that obtain item where
      "analyze_feature fl (recent_period historical_data) (comparison_period historical_data) item
         = Inr t"
      unfolding analyze_feature_trends_def by (blast dest: collect_Inr_member)
    then have "trend t = fst (determine_trend (change t))"
      and "significance t = snd (determine_trend (change t))"
      by (simp_all add: analyze_feature_Inr)
    then show ?thesis
      by (simp add: determine_trend_def IMPROVEMENT_THRESHOLD_def DECLINE_THRESHOLD_def
          STAGNATION_THRESHOLD_def)
  qed
  have b: "determine_trend 2 = (''improving'', ''moderate'')"
    "determine_trend (- 2) = (''declining'', ''moderate'')"
    "determine_trend (1 / 2) = (''stagnant'', ''none'')"
    "determine_trend (51 / 100) = (''stable'', ''minor'')"
    by (simp_all add: determine_trend_def IMPROVEMENT_THRESHOLD_def DECLINE_THRESHOLD_def
          STAGNATION_THRESHOLD_def)
  from ladder b show ?thesis by blast
qed

theorem trend_classification_ladder_witness:
  "\<exists>t. analyze_feature_trends id
         \<lparr>features = [(''dark_circles'', 40)], sleep_score = 70, skin_health_score = 70\<rparr>
         [\<lparr>features = [(''dark_circles'', 32)], sleep_score = 70, skin_health_score = 70\<rparr>,
          \<lparr>features = [(''dark_circles'', 40)], sleep_score = 70, skin_health_score = 70\<rparr>]
       = Inr [t] \<and> change t = 4 \<and> trend t = ''improving'' \<and> significance t = ''moderate''"
proof -
  let ?c = "\<lparr>features = [(''dark_circles'', 40)], sleep_score = 70, skin_health_score = 70\<rparr>"
  let ?h = "[\<lparr>features = [(''dark_circles'', 32)], sleep_score = 70, skin_health_score = 70\<rparr>,
          \<lparr>features = [(''dark_circles'', 40)], sleep_score = 70, skin_health_score = 70\<rparr>]"
  obtain t where e: "analyze_feature_trends id ?c ?h = Inr [t]" and c: "change t = 4"
    by (simp add: analyze_feature_trends_def analyze_feature_def recent_period_def
        comparison_period_def feature_values_def statistics_mean_def dict_get_def Let_def)
  from trend_classification_ladder [of id ?c ?h] e
  have "trend t = (if change t \<ge> 2 then ''improving''
                    else if change t \<le> - 2 then ''declining''
                    else if \<bar>change t\<bar> \<le> 1 / 2 then ''stagnant''
                    else ''stable'') \<and>
         significance t = (if change t \<ge> 2 \<or> change t \<le> - 2
                           then (if \<bar>change t\<bar> \<ge> 5 then ''significant'' else ''moderate'')
                           else if \<bar>change t\<bar> \<le> 1 / 2 then ''none''
                           else ''minor'')"
    by simp
  with c have "trend t = ''improving'' \<and> significance t = ''moderate''" by simp
  with e c show ?thesis by blast
qed

subsection \<open>The windows of the trend analysis\<close>

lemma collect_total:
  assumes "\<forall>x \<in> set xs. \<exists>y. f x = Inr y \<and> P x y"
  shows "\<exists>ys. collect f xs = Inr ys \<and> list_all2 P xs ys"
  using assms
proof (induction xs)
  case Nil
  then show ?case by simp
next
  case (Cons x xs)
  then obtain y where y: "f x = Inr y" "P x y" by auto
  from Cons obtain ys where ys: "collect f xs = Inr ys" "list_all2 P xs ys" by auto
  from y ys show ?case by simp
qed

lemma recent_period_nonempty: "hist \<noteq> [] \<Longrightarrow> recent_period hist \<noteq> []"
  by (auto simp: recent_period_def)

lemma comparison_period_nonempty: "hist \<noteq> [] \<Longrightarrow> comparison_period hist \<noteq> []"
  by (cases hist) (auto simp: comparison_period_def)

lemma analyze_feature_total:
  assumes "recent \<noteq> []" and "comparison \<noteq> []"
  shows "\<exists>t. analyze_feature fl recent comparison item = Inr t \<and>
             feature_name t = fst item \<and> current_value t = snd item \<and>
             previous_value t = fl (arithmetic_mean (feature_values (fst item) comparison)) \<and>
             change t = fl (fl (arithmetic_mean (feature_values (fst item) recent))
                            - fl (arithmetic_mean (feature_values (fst item) comparison))) \<and>
             duration_days t = length recent"
proof (cases item)
  case (Pair k v)
  from assms have "feature_values k recent \<noteq> []" "feature_values k comparison \<noteq> []"
    by (simp_all add: feature_values_def)
  with assms(2) Pair show ?thesis
    by (simp add: analyze_feature_def statistics_mean_def arithmetic_mean_def Let_def)
qed

lemma analyze_feature_trends_total:
  assumes "hist \<noteq> []"
  shows "\<exists>ts. analyze_feature_trends fl cur hist = Inr ts \<and>
          list_all2 (\<lambda>item t. feature_name t = fst item \<and> current_value t = snd item \<and>
             previous_value t =
               fl (arithmetic_mean (feature_values (fst item) (comparison_period hist))) \<and>
             change t =
               fl (fl (arithmetic_mean (feature_values (fst item) (recent_period hist)))
                   - fl (arithmetic_mean (feature_values (fst item) (comparison_period hist)))) \<and>
             duration_days t = length (recent_period hist)) (features cur) ts"
proof -
  from assms have r: "recent_period hist \<noteq> []" and c: "comparison_period hist \<noteq> []"
    by (simp_all add: recent_period_nonempty comparison_period_nonempty)
  show ?thesis
    unfolding analyze_feature_trends_def
  proof (rule collect_total, rule ballI)
    fix x
    show "\<exists>y. analyze_feature fl (recent_period hist) (comparison_period hist) x = Inr y \<and>
             (feature_name y = fst x \<and> current_value y = snd x \<and>
             previous_value y =
               fl (arithmetic_mean (feature_values (fst x) (comparison_period hist))) \<and>
             change y =
               fl (fl (arithmetic_mean (feature_values (fst x) (recent_period hist)))
                   - fl (arithmetic_mean (feature_values (fst x) (comparison_period hist)))) \<and>
             duration_days y = length (recent_period hist))"
      by (rule analyze_feature_total [OF r c])
  qed
qed

lemma list_all2_rightD:
  "list_all2 P xs ys \<Longrightarrow> y \<in> set ys \<Longrightarrow> \<exists>x \<in> set xs. P x y"
  by (induction xs ys rule: list_all2_induct) auto

lemma list_all2_map_eq:
  "list_all2 (\<lambda>x y. g y = f x) xs ys \<Longrightarrow> map g ys = map f xs"
  by (induction xs ys rule: list_all2_induct) auto

lemma analyze_feature_trends_change:
  assumes "hist \<noteq> []"
  shows "\<exists>ts. analyze_feature_trends fl cur hist = Inr ts \<and>
           map feature_name ts = map fst (features cur) \<and>
           (\<forall>t \<in> set ts.
              change t =
                fl (fl (arithmetic_mean (feature_values (feature_name t) (recent_period hist)))
                    - fl (arithmetic_mean
                            (feature_values (feature_name t) (comparison_period hist)))) \<and>
              duration_days t = length (recent_period hist))"
proof -
  define P where "P = (\<lambda>(item :: string \<times> real) (t :: feature_trend).
             feature_name t = fst item \<and> current_value t = snd item \<and>
             previous_value t =
               fl (arithmetic_mean (feature_values (fst item) (comparison_period hist))) \<and>
             change t =
               fl (fl (arithmetic_mean (feature_values (fst item) (recent_period hist)))
                   - fl (arithmetic_mean (feature_values (fst item) (comparison_period hist)))) \<and>
             duration_days t = length (recent_period hist))"
  from analyze_feature_trends_total [OF assms, where cur = cur and fl = fl] obtain ts where
    e: "analyze_feature_trends fl cur hist = Inr ts" and
    a: "list_all2 P (features cur) ts"
    unfolding P_def by blast
  have "list_all2 (\<lambda>item t. feature_name t = fst item) (features cur) ts"
    by (rule list_all2_mono [OF a]) (simp add: P_def)
  then have m: "map feature_name ts = map fst (features cur)"
    by (rule list_all2_map_eq)
  have w: "change t =
             fl (fl (arithmetic_mean (feature_values (feature_name t) (recent_period hist)))
                 - fl (arithmetic_mean
                         (feature_values (feature_name t) (comparison_period hist)))) \<and>
           duration_days t = length (recent_period hist)" if "t \<in> set ts" for t
  proof -
    from list_all2_rightD [OF a that] obtain item where "P item t" by blast
    then show ?thesis by (simp add: P_def)
  qed
  from e m w show ?thesis by blast
qed

text \<open>
  Claim C3, as amended. For a history of \<open>N \<ge> 2\<close> samples the analysis returns one trend
  record per feature of the current sample, in order. The recent window is the last
  \<open>min(7, N)\<close> samples. The comparison window is the 7 samples before the recent window
  when \<open>N \<ge> 14\<close>, the first 7 samples of the series when \<open>7 \<le> N < 14\<close> (it then
  overlaps the recent window), and the first \<open>N div 2\<close> samples when \<open>N < 7\<close>. The change
  of a feature is the arithmetic mean of its scores over the recent window minus the
  arithmetic mean of its scores over the comparison window (a sample without the
  feature counts as 0), in float arithmetic: each mean and the difference are rounded.
\<close>

theorem trend_windows:
  assumes "length hist \<ge> 2"
  shows "\<exists>ts. analyze_feature_trends fl cur hist = Inr ts \<and>
           map feature_name ts = map fst (features cur) \<and>
           (\<forall>t \<in> set ts.
              (let scores = (\<lambda>window.
                     map (\<lambda>entry. case map_of (features entry) (feature_name t) of
                                     None \<Rightarrow> 0 | Some v \<Rightarrow> v) window);
                   recent = drop (length hist - min 7 (length hist)) hist;
                   comparison =
                     (if length hist \<ge> 14 then take 7 (drop (length hist - 14) hist)
                      else if length hist \<ge> 7 then take 7 hist
                      else take (length hist div 2) hist)
               in change t =
                    fl (fl (sum_list (scores recent) / real (length recent))
                        - fl (sum_list (scores comparison) / real (length comparison)))) \<and>
              duration_days t = min 7 (length hist))"
proof -
  from assms have ne: "hist \<noteq> []" by auto
  have r: "recent_period hist = drop (length hist - min 7 (length hist)) hist"
    by (simp add: recent_period_def min_def)
  have c: "comparison_period hist =
       (if length hist \<ge> 14 then take 7 (drop (length hist - 14) hist)
                    else if length hist \<ge> 7 then take 7 hist
                    else take (length hist div 2) hist)"
    using assms by (simp add: comparison_period_def)
  have l: "length (recent_period hist) = min 7 (length hist)"
    by (simp add: recent_period_def min_def)
  have v: "arithmetic_mean (feature_values k w) =
             sum_list (map (\<lambda>entry. case map_of (features entry) k of
                                       None \<Rightarrow> 0 | Some v \<Rightarrow> v) w) / real (length w)"
    for k w
    by (simp add: arithmetic_mean_def feature_values_def dict_get_def)
  from analyze_feature_trends_change [OF ne, where cur = cur and fl = fl] obtain ts where
    e: "analyze_feature_trends fl cur hist = Inr ts" and
    m: "map feature_name ts = map fst (features cur)" and
    w: "\<forall>t \<in> set ts.
              change t =
                fl (fl (arithmetic_mean (feature_values (feature_name t) (recent_period hist)))
                    - fl (arithmetic_mean
                            (feature_values (feature_name t) (comparison_period hist)))) \<and>
              duration_days t = length (recent_period hist)"
    by blast
  from w have w': "\<forall>t \<in> set ts.
              change t =
                fl (fl (arithmetic_mean (feature_values (feature_name t)
                          (drop (length hist - min 7 (length hist)) hist)))
                    - fl (arithmetic_mean
                            (feature_values (feature_name t)
                               (if length hist \<ge> 14 then take 7 (drop (length hist - 14) hist)
                                else if length hist \<ge> 7 then take 7 hist
                                else take (length hist div 2) hist)))) \<and>
              duration_days t = min 7 (length hist)"
    unfolding l unfolding r c by simp
  have "\<forall>t \<in> set ts.
              (let scores = (\<lambda>window.
                     map (\<lambda>entry. case map_of (features entry) (feature_name t) of
                                     None \<Rightarrow> 0 | Some v \<Rightarrow> v) window);
                   recent = drop (length hist - min 7 (length hist)) hist;
                   comparison =
                     (if length hist \<ge> 14 then take 7 (drop (length hist - 14) hist)
                      else if length hist \<ge> 7 then take 7 hist
                      else take (length hist div 2) hist)
               in change t =
                    fl (fl (sum_list (scores recent) / real (length recent))
                        - fl (sum_list (scores comparison) / real (length comparison)))) \<and>
              duration_days t = min 7 (length hist)"
    unfolding Let_def v [symmetric] by (rule w')
  with e m show ?thesis by blast
qed

theorem trend_windows_witness:
  "length [\<lparr>features = [(''texture'', 32)], sleep_score = 70, skin_health_score = 70\<rparr>,
      \<lparr>features = [(''texture'', 40)], sleep_score = 70, skin_health_score = 70\<rparr>] \<ge> 2 \<and>
   (\<exists>ts. analyze_feature_trends id \<lparr>features = [(''texture'', 40)], sleep_score = 70, skin_health_score = 70\<rparr> [\<lparr>features = [(''texture'', 32)], sleep_score = 70, skin_health_score = 70\<rparr>,
      \<lparr>features = [(''texture'', 40)], sleep_score = 70, skin_health_score = 70\<rparr>] = Inr ts \<and> map feature_name ts = [''texture''] \<and>
      (\<forall>t \<in> set ts. change t = 4 \<and> duration_days t = 2))"
proof -
  let ?h = "[\<lparr>features = [(''texture'', 32)], sleep_score = 70, skin_health_score = 70\<rparr>,
      \<lparr>features = [(''texture'', 40)], sleep_score = 70, skin_health_score = 70\<rparr>]"
  let ?c = "\<lparr>features = [(''texture'', 40)], sleep_score = 70, skin_health_score = 70\<rparr>"
  have l: "length ?h \<ge> 2" by simp
  from trend_windows [OF l, where cur = ?c and fl = id] obtain ts where
    e: "analyze_feature_trends id ?c ?h = Inr ts" and
    m: "map feature_name ts = map fst (features ?c)" and
    w: "\<forall>t \<in> set ts.
              (let scores = (\<lambda>window.
                     map (\<lambda>entry. case map_of (features entry) (feature_name t) of
                                     None \<Rightarrow> 0 | Some v \<Rightarrow> v) window);
                   recent = drop (length ?h - min 7 (length ?h)) ?h;
                   comparison =
                     (if length ?h \<ge> 14 then take 7 (drop (length ?h - 14) ?h)
                      else if length ?h \<ge> 7 then take 7 ?h
                      else take (length ?h div 2) ?h)
               in change t =
                    id (id (sum_list (scores recent) / real (length recent))
                        - id (sum_list (scores comparison) / real (length comparison)))) \<and>
              duration_days t = min 7 (length ?h)"
    by blast
  from m have m': "map feature_name ts = [''texture'']" by simp
  then have n: "\<forall>t \<in> set ts. feature_name t = ''texture''" by auto
  have "\<forall>t \<in> set ts. change t = 4 \<and> duration_days t = 2"
  proof
    fix t assume t: "t \<in> set ts"
    with n have "feature_name t = ''texture''" by simp
    with bspec [OF w t] show "change t = 4 \<and> duration_days t = 2"
      by (simp add: Let_def)
  qed
  then have "analyze_feature_trends id ?c ?h = Inr ts \<and> map feature_name ts = [''texture''] \<and>
      (\<forall>t \<in> set ts. change t = 4 \<and> duration_days t = 2)"
    using e m' by simp
  then show ?thesis using l by (intro conjI exI [of _ ts]) simp_all
qed

text \<open>
  The claim as the specification words it (the first half of the series whenever fewer
  than 14 samples exist) fails on 8 samples with the scores 0, 4, 4, 4, 4, 6, 6, 7. The
  code compares the last 7 (mean 5) with the first 7 (mean 4) and reports the change 1,
  a stable trend; the specification's windows give the change 2 (mean 5 against the
  mean 3 of the first four), an improving trend. Every number in this computation is a
  small integer or a quarter, so float arithmetic is exact on it and the rounding is
  \<open>id\<close>.
\<close>

theorem comparison_window_first_half_counterexample:
  "length [\<lparr>features = [(''texture'', 0)], sleep_score = 70, skin_health_score = 70\<rparr>,
      \<lparr>features = [(''texture'', 4)], sleep_score = 70, skin_health_score = 70\<rparr>,
      \<lparr>features = [(''texture'', 4)], sleep_score = 70, skin_health_score = 70\<rparr>,
      \<lparr>features = [(''texture'', 4)], sleep_score = 70, skin_health_score = 70\<rparr>,
      \<lparr>features = [(''texture'', 4)], sleep_score = 70, skin_health_score = 70\<rparr>,
      \<lparr>features = [(''texture'', 6)], sleep_score = 70, skin_health_score = 70\<rparr>,
      \<lparr>features = [(''texture'', 6)], sleep_score = 70, skin_health_score = 70\<rparr>,
      \<lparr>features = [(''texture'', 7)], sleep_score = 70, skin_health_score = 70\<rparr>] \<ge> 2 \<and>
   analyze_feature_trends id \<lparr>features = [(''texture'', 7)], sleep_score = 70, skin_health_score = 70\<rparr> [\<lparr>features = [(''texture'', 0)], sleep_score = 70, skin_health_score = 70\<rparr>,
      \<lparr>features = [(''texture'', 4)], sleep_score = 70, skin_health_score = 70\<rparr>,
      \<lparr>features = [(''texture'', 4)], sleep_score = 70, skin_health_score = 70\<rparr>,
      \<lparr>features = [(''texture'', 4)], sleep_score = 70, skin_health_score = 70\<rparr>,
      \<lparr>features = [(''texture'', 4)], sleep_score = 70, skin_health_score = 70\<rparr>,
      \<lparr>features = [(''texture'', 6)], sleep_score = 70, skin_health_score = 70\<rparr>,
      \<lparr>features = [(''texture'', 6)], sleep_score = 70, skin_health_score = 70\<rparr>,
      \<lparr>features = [(''texture'', 7)], sleep_score = 70, skin_health_score = 70\<rparr>] =
     Inr [\<lparr>feature_name = ''texture'', current_value = 7, previous_value = 4,
           change = 1, change_percentage = 25, trend = ''stable'',
           duration_days = 7, significance = ''minor''\<rparr>] \<and>
   spec_change ''texture'' [\<lparr>features = [(''texture'', 0)], sleep_score = 70, skin_health_score = 70\<rparr>,
      \<lparr>features = [(''texture'', 4)], sleep_score = 70, skin_health_score = 70\<rparr>,
      \<lparr>features = [(''texture'', 4)], sleep_score = 70, skin_health_score = 70\<rparr>,
      \<lparr>features = [(''texture'', 4)], sleep_score = 70, skin_health_score = 70\<rparr>,
      \<lparr>features = [(''texture'', 4)], sleep_score = 70, skin_health_score = 70\<rparr>,
      \<lparr>features = [(''texture'', 6)], sleep_score = 70, skin_health_score = 70\<rparr>,
      \<lparr>features = [(''texture'', 6)], sleep_score = 70, skin_health_score = 70\<rparr>,
      \<lparr>features = [(''texture'', 7)], sleep_score = 70, skin_health_score = 70\<rparr>] = 2 \<and>
   spec_change ''texture'' [\<lparr>features = [(''texture'', 0)], sleep_score = 70, skin_health_score = 70\<rparr>,
      \<lparr>features = [(''texture'', 4)], sleep_score = 70, skin_health_score = 70\<rparr>,
      \<lparr>features = [(''texture'', 4)], sleep_score = 70, skin_health_score = 70\<rparr>,
      \<lparr>features = [(''texture'', 4)], sleep_score = 70, skin_health_score = 70\<rparr>,
      \<lparr>features = [(''texture'', 4)], sleep_score = 70, skin_health_score = 70\<rparr>,
      \<lparr>features = [(''texture'', 6)], sleep_score = 70, skin_health_score = 70\<rparr>,
      \<lparr>features = [(''texture'', 6)], sleep_score = 70, skin_health_score = 70\<rparr>,
      \<lparr>features = [(''texture'', 7)], sleep_score = 70, skin_health_score = 70\<rparr>] \<noteq> 1"
  by (simp add: analyze_feature_trends_def analyze_feature_def recent_period_def
        comparison_period_def feature_values_def statistics_mean_def dict_get_def Let_def
        determine_trend_def IMPROVEMENT_THRESHOLD_def DECLINE_THRESHOLD_def
        STAGNATION_THRESHOLD_def arithmetic_mean_def spec_recent_window_def
        spec_comparison_window_def spec_change_def spec_scores_def)

subsection \<open>Stagnation\<close>

lemma good_threshold:
  "dict_get (dict_get FEATURE_RANGES k []) ''good'' 60 =
     (if k = ''puffiness'' \<or> k = ''pore_size'' then 55
      else if k = ''brightness'' then 65 else 60)"
  by (simp add: dict_get_def FEATURE_RANGES_def)

lemma stagnant_item_window:
  assumes "length period = 14"
  shows "stagnant_item fl period (k, v) \<longleftrightarrow>
           (let vals = map (\<lambda>entry. case map_of (features entry) k of
                                       None \<Rightarrow> 0 | Some x \<Rightarrow> x) period;
                mu = sum_list vals / 14;
                var = fl ((\<Sum>x\<leftarrow>vals. (x - mu)\<^sup>2) / 13)
            in var < 2 \<and> \<bar>fl (last vals - hd vals)\<bar> < 2 \<and>
               v < (if k = ''puffiness'' \<or> k = ''pore_size'' then 55
                    else if k = ''brightness'' then 65 else 60))"
proof -
  have f: "feature_values k period =
             map (\<lambda>entry. case map_of (features entry) k of None \<Rightarrow> 0 | Some x \<Rightarrow> x) period"
    by (simp add: feature_values_def dict_get_def)
  from assms have l: "length (feature_values k period) = 14"
    by (simp add: feature_values_def)
  then have ne: "feature_values k period \<noteq> []" by auto
  from l ne have "stagnant_item fl period (k, v) \<longleftrightarrow>
           (let vals = feature_values k period;
                mu = sum_list vals / 14;
                var = fl ((\<Sum>x\<leftarrow>vals. (x - mu)\<^sup>2) / 13)
            in var < 2 \<and> \<bar>fl (last vals - hd vals)\<bar> < 2 \<and>
               v < dict_get (dict_get FEATURE_RANGES k []) ''good'' 60)"
    by (auto simp: stagnant_item_def sample_variance_def Let_def)
  then show ?thesis by (simp only: good_threshold f)
qed

text \<open>
  Claim C4. With fewer than 14 historical samples no feature is flagged. With at least
  14, a feature key is flagged exactly when it is a key of the current sample and, for
  its scores over the last 14 samples (0 where a sample has none), the sample variance
  is below 2, the absolute difference of the last and the first score is below 2, and
  the current value is below the feature's ``good'' threshold (55 for puffiness and
  pore size, 65 for brightness, 60 for the other features and for unknown keys). The
  variance and the difference are the floats the code computes, the exact values
  rounded. So a window whose variance is at least 2 is never flagged, whatever its
  total change.
\<close>

theorem stagnation_flags:
  "(length hist < 14 \<longrightarrow> detect_stagnation fl hist cur = []) \<and>
   (k \<in> set (detect_stagnation fl hist cur) \<longleftrightarrow>
      14 \<le> length hist \<and>
      (\<exists>v. (k, v) \<in> set (features cur) \<and>
         (let vals = map (\<lambda>entry. case map_of (features entry) k of
                                     None \<Rightarrow> 0 | Some x \<Rightarrow> x)
                         (drop (length hist - 14) hist);
              mu = sum_list vals / 14;
              var = fl ((\<Sum>x\<leftarrow>vals. (x - mu)\<^sup>2) / 13)
          in var < 2 \<and> \<bar>fl (last vals - hd vals)\<bar> < 2 \<and>
             v < (if k = ''puffiness'' \<or> k = ''pore_size'' then 55
                  else if k = ''brightness'' then 65 else 60))))"
proof (cases "length hist < 14")
  case True
  then show ?thesis by (simp add: detect_stagnation_def STAGNATION_DURATION_def)
next
  case False
  then have l: "length (drop (length hist - 14) hist) = 14" by simp
  have "k \<in> set (detect_stagnation fl hist cur) \<longleftrightarrow>
          (\<exists>v. (k, v) \<in> set (features cur) \<and>
               stagnant_item fl (drop (length hist - 14) hist) (k, v))"
    using False by (force simp: detect_stagnation_def STAGNATION_DURATION_def Let_def)
  with False show ?thesis
    by (simp add: stagnant_item_window [OF l])
qed

text \<open>
  Two histories of 14 samples. Wrinkles constant at 35 (variance 0, no change, below
  the threshold 60) are flagged. Wrinkles at 30 with one sample at 44 in the middle
  (mean 31, variance 14, first and last score equal) are not flagged. All the numbers
  are integers, so float arithmetic is exact on them and the rounding is \<open>id\<close>.
\<close>

theorem stagnation_flags_witness:
  "''wrinkles'' \<in> set (detect_stagnation id
      [\<lparr>features = [(''wrinkles'', 35)], sleep_score = 70, skin_health_score = 70\<rparr>,
      \<lparr>features = [(''wrinkles'', 35)], sleep_score = 70, skin_health_score = 70\<rparr>,
      \<lparr>features = [(''wrinkles'', 35)], sleep_score = 70, skin_health_score = 70\<rparr>,
      \<lparr>features = [(''wrinkles'', 35)], sleep_score = 70, skin_health_score = 70\<rparr>,
      \<lparr>features = [(''wrinkles'', 35)], sleep_score = 70, skin_health_score = 70\<rparr>,
      \<lparr>features = [(''wrinkles'', 35)], sleep_score = 70, skin_health_score = 70\<rparr>,
      \<lparr>features = [(''wrinkles'', 35)], sleep_score = 70, skin_health_score = 70\<rparr>,
      \<lparr>features = [(''wrinkles'', 35)], sleep_score = 70, skin_health_score = 70\<rparr>,
      \<lparr>features = [(''wrinkles'', 35)], sleep_score = 70, skin_health_score = 70\<rparr>,
      \<lparr>features = [(''wrinkles'', 35)], sleep_score = 70, skin_health_score = 70\<rparr>,
      \<lparr>features = [(''wrinkles'', 35)], sleep_score = 70, skin_health_score = 70\<rparr>,
      \<lparr>features = [(''wrinkles'', 35)], sleep_score = 70, skin_health_score = 70\<rparr>,
      \<lparr>features = [(''wrinkles'', 35)], sleep_score = 70, skin_health_score = 70\<rparr>,
      \<lparr>features = [(''wrinkles'', 35)], sleep_score = 70, skin_health_score = 70\<rparr>]
      \<lparr>features = [(''wrinkles'', 35)], sleep_score = 70, skin_health_score = 70\<rparr>) \<and>
   ''wrinkles'' \<notin> set (detect_stagnation id
      [\<lparr>features = [(''wrinkles'', 30)], sleep_score = 70, skin_health_score = 70\<rparr>,
      \<lparr>features = [(''wrinkles'', 30)], sleep_score = 70, skin_health_score = 70\<rparr>,
      \<lparr>features = [(''wrinkles'', 30)], sleep_score = 70, skin_health_score = 70\<rparr>,
      \<lparr>features = [(''wrinkles'', 30)], sleep_score = 70, skin_health_score = 70\<rparr>,
      \<lparr>features = [(''wrinkles'', 30)], sleep_score = 70, skin_health_score = 70\<rparr>,
      \<lparr>features = [(''wrinkles'', 30)], sleep_score = 70, skin_health_score = 70\<rparr>,
      \<lparr>features = [(''wrinkles'', 44)], sleep_score = 70, skin_health_score = 70\<rparr>,
      \<lparr>features = [(''wrinkles'', 30)], sleep_score = 70, skin_health_score = 70\<rparr>,
      \<lparr>features = [(''wrinkles'', 30)], sleep_score = 70, skin_health_score = 70\<rparr>,
      \<lparr>features = [(''wrinkles'', 30)], sleep_score = 70, skin_health_score = 70\<rparr>,
      \<lparr>features = [(''wrinkles'', 30)], sleep_score = 70, skin_health_score = 70\<rparr>,
      \<lparr>features = [(''wrinkles'', 30)], sleep_score = 70, skin_health_score = 70\<rparr>,
      \<lparr>features = [(''wrinkles'', 30)], sleep_score = 70, skin_health_score = 70\<rparr>,
      \<lparr>features = [(''wrinkles'', 30)], sleep_score = 70, skin_health_score = 70\<rparr>]
      \<lparr>features = [(''wrinkles'', 30)], sleep_score = 70, skin_health_score = 70\<rparr>)"
  using stagnation_flags [of
      "[\<lparr>features = [(''wrinkles'', 35)], sleep_score = 70, skin_health_score = 70\<rparr>,
      \<lparr>features = [(''wrinkles'', 35)], sleep_score = 70, skin_health_score = 70\<rparr>,
      \<lparr>features = [(''wrinkles'', 35)], sleep_score = 70, skin_health_score = 70\<rparr>,
      \<lparr>features = [(''wrinkles'', 35)], sleep_score = 70, skin_health_score = 70\<rparr>,
      \<lparr>features = [(''wrinkles'', 35)], sleep_score = 70, skin_health_score = 70\<rparr>,
      \<lparr>features = [(''wrinkles'', 35)], sleep_score = 70, skin_health_score = 70\<rparr>,
      \<lparr>features = [(''wrinkles'', 35)], sleep_score = 70, skin_health_score = 70\<rparr>,
      \<lparr>features = [(''wrinkles'', 35)], sleep_score = 70, skin_health_score = 70\<rparr>,
      \<lparr>features = [(''wrinkles'', 35)], sleep_score = 70, skin_health_score = 70\<rparr>,
      \<lparr>features = [(''wrinkles'', 35)], sleep_score = 70, skin_health_score = 70\<rparr>,
      \<lparr>features = [(''wrinkles'', 35)], sleep_score = 70, skin_health_score = 70\<rparr>,
      \<lparr>features = [(''wrinkles'', 35)], sleep_score = 70, skin_health_score = 70\<rparr>,
      \<lparr>features = [(''wrinkles'', 35)], sleep_score = 70, skin_health_score = 70\<rparr>,
      \<lparr>features = [(''wrinkles'', 35)], sleep_score = 70, skin_health_score = 70\<rparr>]" id
      "\<lparr>features = [(''wrinkles'', 35)], sleep_score = 70, skin_health_score = 70\<rparr>" "''wrinkles''"]
    stagnation_flags [of
      "[\<lparr>features = [(''wrinkles'', 30)], sleep_score = 70, skin_health_score = 70\<rparr>,
      \<lparr>features = [(''wrinkles'', 30)], sleep_score = 70, skin_health_score = 70\<rparr>,
      \<lparr>features = [(''wrinkles'', 30)], sleep_score = 70, skin_health_score = 70\<rparr>,
      \<lparr>features = [(''wrinkles'', 30)], sleep_score = 70, skin_health_score = 70\<rparr>,
      \<lparr>features = [(''wrinkles'', 30)], sleep_score = 70, skin_health_score = 70\<rparr>,
      \<lparr>features = [(''wrinkles'', 30)], sleep_score = 70, skin_health_score = 70\<rparr>,
      \<lparr>features = [(''wrinkles'', 44)], sleep_score = 70, skin_health_score = 70\<rparr>,
      \<lparr>features = [(''wrinkles'', 30)], sleep_score = 70, skin_health_score = 70\<rparr>,
      \<lparr>features = [(''wrinkles'', 30)], sleep_score = 70, skin_health_score = 70\<rparr>,
      \<lparr>features = [(''wrinkles'', 30)], sleep_score = 70, skin_health_score = 70\<rparr>,
      \<lparr>features = [(''wrinkles'', 30)], sleep_score = 70, skin_health_score = 70\<rparr>,
      \<lparr>features = [(''wrinkles'', 30)], sleep_score = 70, skin_health_score = 70\<rparr>,
      \<lparr>features = [(''wrinkles'', 30)], sleep_score = 70, skin_health_score = 70\<rparr>,
      \<lparr>features = [(''wrinkles'', 30)], sleep_score = 70, skin_health_score = 70\<rparr>]" id
      "\<lparr>features = [(''wrinkles'', 30)], sleep_score = 70, skin_health_score = 70\<rparr>" "''wrinkles''"]
  by (simp add: Let_def)

subsection \<open>The lifestyle tip\<close>

text \<open>
  Claim C6. The lifestyle tip follows a ladder on the routine's sleep hours and water
  intake (an absent key reads as 0): below 6 hours the ``prioritize 7-9 hours'' text;
  from 6 to below 7 hours the ``additional hour'' text; from 7 to 9 hours the ``maintain''
  text; beyond that the ``increase water'' text when the water intake is below 6, and
  the general encouragement otherwise. The routine with 5 hours of sleep and 8 glasses
  of water gets the ``prioritize 7-9 hours'' text, not the water text.
\<close>

theorem lifestyle_ladder:
  "(let s = (case sleep_hours rout of None \<Rightarrow> 0 | Some h \<Rightarrow> h);
        w = (case water_intake rout of None \<Rightarrow> 0 | Some g \<Rightarrow> g)
    in
      (s < 6 \<longrightarrow> get_lifestyle_recommendation F rout =
         ''Prioritize getting 7-9 hours of quality sleep each night for optimal skin repair and regeneration.'') \<and>
      (6 \<le> s \<and> s < 7 \<longrightarrow> get_lifestyle_recommendation F rout =
         ''Aim for an additional hour of sleep to reach the optimal 7-9 hours for better skin health.'') \<and>
      (7 \<le> s \<and> s \<le> 9 \<longrightarrow> get_lifestyle_recommendation F rout =
         ''Great sleep routine! Continue maintaining '' @ str_int F \<lfloor>s\<rfloor> @
         '' hours nightly to support your skin's natural recovery.'') \<and>
      (9 < s \<and> w < 6 \<longrightarrow> get_lifestyle_recommendation F rout =
         ''Increase water intake to 8+ glasses daily to improve skin hydration and flush out toxins.'') \<and>
      (9 < s \<and> 6 \<le> w \<longrightarrow> get_lifestyle_recommendation F rout =
         ''Keep up your healthy lifestyle habits - they're supporting your skin's natural glow!''))"
  by (simp add: get_lifestyle_recommendation_def opt_get_def py_int_def Let_def
      split: option.splits)

theorem lifestyle_ladder_witness:
  "get_lifestyle_recommendation
      \<lparr>str_num = (\<lambda>x. ''''), str_int = (\<lambda>i. ''''), fmt_f = (\<lambda>n x. '''')\<rparr>
      \<lparr>sleep_hours = Some 5, water_intake = Some 8\<rparr> =
     ''Prioritize getting 7-9 hours of quality sleep each night for optimal skin repair and regeneration.'' \<and>
   get_lifestyle_recommendation
      \<lparr>str_num = (\<lambda>x. ''''), str_int = (\<lambda>i. ''''), fmt_f = (\<lambda>n x. '''')\<rparr>
      \<lparr>sleep_hours = Some 5, water_intake = Some 8\<rparr> \<noteq>
     ''Increase water intake to 8+ glasses daily to improve skin hydration and flush out toxins.''"
  using lifestyle_ladder [of "\<lparr>sleep_hours = Some 5, water_intake = Some 8\<rparr>"
      "\<lparr>str_num = (\<lambda>x. ''''), str_int = (\<lambda>i. ''''), fmt_f = (\<lambda>n x. '''')\<rparr>"]
  by (simp add: Let_def)

subsection \<open>The daily summary\<close>

text \<open>
  Claim C8. The daily summary starts with the status chosen by the first matching rung:
  at least 3 improving trends and no declining one give ``Excellent progress!''; at
  least 2 improving and at most 1 declining give ``Good progress!''; at least 3
  stagnation flags give ``Time for changes.''; at least 2 declining trends give
  ``Needs attention.''; anything else gives ``Steady progress.''. The improving and
  declining counts are taken from the trend records, the stagnant count is the number
  of stagnation flags.
\<close>

theorem daily_summary_status:
  "\<exists>message.
     generate_daily_summary F current_analysis feature_trends significant_changes
         stagnant_feats rout =
       (let improving_count = length (filter (\<lambda>t. trend t = ''improving'') feature_trends);
            declining_count = length (filter (\<lambda>t. trend t = ''declining'') feature_trends);
            stagnant_count = length stagnant_feats
        in if improving_count \<ge> 3 \<and> declining_count = 0 then ''Excellent progress! ''
           else if improving_count \<ge> 2 \<and> declining_count \<le> 1 then ''Good progress! ''
           else if stagnant_count \<ge> 3 then ''Time for changes. ''
           else if declining_count \<ge> 2 then ''Needs attention. ''
           else ''Steady progress. '') @ message"
  by (simp add: generate_daily_summary_def Let_def)

theorem daily_summary_status_witness:
  "\<exists>message.
     generate_daily_summary
         \<lparr>str_num = (\<lambda>x. ''''), str_int = (\<lambda>i. ''''), fmt_f = (\<lambda>n x. '''')\<rparr>
         \<lparr>features = [], sleep_score = 70, skin_health_score = 70\<rparr> [] []
         [''wrinkles'', ''texture'', ''puffiness'']
         \<lparr>sleep_hours = Some 5, water_intake = Some 8\<rparr> =
       ''Time for changes. '' @ message"
  using daily_summary_status [of
         "\<lparr>str_num = (\<lambda>x. ''''), str_int = (\<lambda>i. ''''), fmt_f = (\<lambda>n x. '''')\<rparr>"
         "\<lparr>features = [], sleep_score = 70, skin_health_score = 70\<rparr>" "[]" "[]"
         "[''wrinkles'', ''texture'', ''puffiness'']"
         "\<lparr>sleep_hours = Some 5, water_intake = Some 8\<rparr>"]
  by (simp add: Let_def)

subsection \<open>Bounds of the summary\<close>

lemma fallback_recommendations_length:
  "length (fallback_recommendations F cur rout ts st) \<le> 8"
  by (simp add: fallback_recommendations_def Let_def)

lemma generate_ai_recommendations_cases:
  "generate_ai_recommendations F llm rnd cur rout ts st sg =
     Inr (RecList (fallback_recommendations F cur rout ts st)) \<or>
   (\<exists>d. generate_ai_recommendations F llm rnd cur rout ts st sg = Inr (RecDict d) \<and>
        length (rec_recommendations d) \<le> 5 \<and>
        length (rec_natural_remedies d) \<le> 2 \<and>
        length (rec_product_recommendations d) \<le> 2 \<and>
        rec_lifestyle_tip d = get_lifestyle_recommendation F rout)"
  by (auto simp: generate_ai_recommendations_def Let_def split: ai_response.splits)

lemma generate_key_insights_length:
  "length (generate_key_insights F ts sg st) \<le> 6"
  by (simp add: generate_key_insights_def Let_def)

lemma baseline_summary_bounds:
  "length (key_insights (baseline_summary F llm rnd cur rout hist)) \<le> 2 \<and>
   length (recommendations (baseline_summary F llm rnd cur rout hist)) \<le> 6 \<and>
   length (natural_remedies (baseline_summary F llm rnd cur rout hist)) \<le> 2 \<and>
   length (product_recommendations (baseline_summary F llm rnd cur rout hist)) \<le> 2"
  using generate_ai_recommendations_cases [of F llm rnd cur rout "[]" "[]" "[]"]
  by (auto simp: baseline_summary_def Let_def)


lemma generate_ai_recommendations_generative:
  assumes "llm (build_request rnd cur rout) = LLMDict d"
    and "ai_recommendations d = Some recs" and "recs \<noteq> []"
  shows "\<exists>r. generate_ai_recommendations F llm rnd cur rout ts st sg = Inr (RecDict r) \<and>
             length (rec_recommendations r) \<le> 5"
  using assms by (cases recs) (auto simp: generate_ai_recommendations_def Let_def opt_get_def)

lemma analyze_feature_trends_Inr:
  assumes "length hist \<ge> 2"
  shows "\<exists>ts. analyze_feature_trends fl cur hist = Inr ts"
proof -
  from assms have "hist \<noteq> []" by auto
  from analyze_feature_trends_total [OF this, where cur = cur and fl = fl] show ?thesis by blast
qed

text \<open>
  Claim C5. For every input the summary is returned (no error reaches the caller), and
  on every path (baseline for fewer than 2 historical samples, generative success,
  rule-based fallback) it has at most 6 key insights, at most 8 recommendations, at
  most 2 natural remedies and at most 2 product recommendations; the lifestyle tip is
  absent or the one text of the lifestyle ladder. When the generative response carries
  a non-empty list of recommendations, the combined list has at most 5 entries (up to
  4 generative ones and the lifestyle tip).
\<close>

theorem summary_bounds:
  "\<exists>s. generate_smart_summary fl F llm rnd cur rout hist = Inr s \<and>
      length (key_insights s) \<le> 6 \<and>
      length (recommendations s) \<le> 8 \<and>
      length (natural_remedies s) \<le> 2 \<and>
      length (product_recommendations s) \<le> 2 \<and>
      (lifestyle_tip s = None \<or> lifestyle_tip s = Some (get_lifestyle_recommendation F rout)) \<and>
      ((\<exists>d recs. llm (build_request rnd cur rout) = LLMDict d \<and>
                 ai_recommendations d = Some recs \<and> recs \<noteq> []) \<longrightarrow>
         length (recommendations s) \<le> 5)"
proof (cases "length hist < 2")
  case True
  let ?s = "baseline_summary F llm rnd cur rout hist"
  have e: "generate_smart_summary fl F llm rnd cur rout hist = Inr ?s"
    using True by (simp add: generate_smart_summary_def)
  have b: "length (key_insights ?s) \<le> 2 \<and> length (recommendations ?s) \<le> 6 \<and>
      length (natural_remedies ?s) \<le> 2 \<and> length (product_recommendations ?s) \<le> 2"
    by (rule baseline_summary_bounds)
  have t: "lifestyle_tip ?s = None \<or> lifestyle_tip ?s = Some (get_lifestyle_recommendation F rout)"
    using generate_ai_recommendations_cases [of F llm rnd cur rout "[]" "[]" "[]"]
    by (auto simp: baseline_summary_def Let_def)
  have g: "length (recommendations ?s) \<le> 5"
    if "llm (build_request rnd cur rout) = LLMDict d" "ai_recommendations d = Some recs"
       "recs \<noteq> []" for d recs
    using generate_ai_recommendations_generative [where llm = llm and F = F and ts = "[]" and st = "[]" and sg = "[]", OF that]
    by (auto simp: baseline_summary_def Let_def)
  from e b t g show ?thesis by auto
next
  case False
  then have "length hist \<ge> 2" by simp
  from analyze_feature_trends_Inr [OF this, where cur = cur and fl = fl] obtain ts where
    a: "analyze_feature_trends fl cur hist = Inr ts" by blast
  let ?sg = "detect_significant_changes ts"
  let ?st = "detect_stagnation fl hist cur"
  from generate_ai_recommendations_cases [of F llm rnd cur rout ts ?st ?sg]
  show ?thesis
  proof
    assume r: "generate_ai_recommendations F llm rnd cur rout ts ?st ?sg =
       Inr (RecList (fallback_recommendations F cur rout ts ?st))"
    have n: "\<not> (\<exists>d recs. llm (build_request rnd cur rout) = LLMDict d \<and>
                 ai_recommendations d = Some recs \<and> recs \<noteq> [])"
    proof
      assume "\<exists>d recs. llm (build_request rnd cur rout) = LLMDict d \<and>
                 ai_recommendations d = Some recs \<and> recs \<noteq> []"
      then obtain d recs where "llm (build_request rnd cur rout) = LLMDict d"
        "ai_recommendations d = Some recs" "recs \<noteq> []" by blast
      from generate_ai_recommendations_generative [where llm = llm and F = F and ts = ts and st = ?st and sg = ?sg, OF this] r
      show False by auto
    qed
    from False a r n show ?thesis
      by (auto simp: generate_smart_summary_def Let_def generate_key_insights_length
          fallback_recommendations_length)
  next
    assume "\<exists>d. generate_ai_recommendations F llm rnd cur rout ts ?st ?sg = Inr (RecDict d) \<and>
        length (rec_recommendations d) \<le> 5 \<and>
        length (rec_natural_remedies d) \<le> 2 \<and>
        length (rec_product_recommendations d) \<le> 2 \<and>
        rec_lifestyle_tip d = get_lifestyle_recommendation F rout"
    then obtain d where r: "generate_ai_recommendations F llm rnd cur rout ts ?st ?sg = Inr (RecDict d)"
      and b: "length (rec_recommendations d) \<le> 5" "length (rec_natural_remedies d) \<le> 2"
        "length (rec_product_recommendations d) \<le> 2"
        "rec_lifestyle_tip d = get_lifestyle_recommendation F rout" by blast
    from False a r b show ?thesis
      by (simp add: generate_smart_summary_def Let_def generate_key_insights_length)
  qed
qed


theorem summary_bounds_witness:
  "\<exists>s. generate_smart_summary id
          \<lparr>str_num = (\<lambda>x. ''''), str_int = (\<lambda>i. ''''), fmt_f = (\<lambda>n x. '''')\<rparr>
          (\<lambda>req. LLMDict \<lparr>ai_recommendations = Some [''a'', ''b'', ''c'', ''d'', ''e'', ''f''], ai_natural_remedies = Some [''a'', ''b'', ''c''], ai_product_recommendations = None\<rparr>)
          0 \<lparr>features = [(''texture'', 20)], sleep_score = 70, skin_health_score = 70\<rparr>
          \<lparr>sleep_hours = Some 5, water_intake = Some 8\<rparr> [] = Inr s \<and>
      length (key_insights s) \<le> 6 \<and>
      length (recommendations s) \<le> 5 \<and>
      length (natural_remedies s) \<le> 2 \<and>
      length (product_recommendations s) \<le> 2"
  using summary_bounds [of id
          "\<lparr>str_num = (\<lambda>x. ''''), str_int = (\<lambda>i. ''''), fmt_f = (\<lambda>n x. '''')\<rparr>"
          "(\<lambda>req. LLMDict \<lparr>ai_recommendations = Some [''a'', ''b'', ''c'', ''d'', ''e'', ''f''], ai_natural_remedies = Some [''a'', ''b'', ''c''], ai_product_recommendations = None\<rparr>)"
          0 "\<lparr>features = [(''texture'', 20)], sleep_score = 70, skin_health_score = 70\<rparr>"
          "\<lparr>sleep_hours = Some 5, water_intake = Some 8\<rparr>" "[]"]
  by auto

subsection \<open>Fallback to the rule engine\<close>

lemma get_feature_recommendations_length:
  "length (get_feature_recommendations k status v rout) \<le> 1"
  by (simp add: get_feature_recommendations_def Let_def)

lemma concat_map_length_le:
  assumes "\<And>x. length (f x) \<le> 1"
  shows "length (concat (map f xs)) \<le> length xs"
proof (induction xs)
  case Nil
  then show ?case by simp
next
  case (Cons x xs)
  from assms [of x] Cons show ?case by simp
qed

lemma concat_map_take2_length:
  assumes "\<And>x. length (f x) \<le> 1"
  shows "length (concat (map f (take 2 xs))) \<le> 2"
proof -
  have "length (concat (map f (take 2 xs))) \<le> length (take 2 xs)"
    using assms by (rule concat_map_length_le)
  then show ?thesis by simp
qed

lemma generate_ai_recommendations_failure:
  assumes "case llm (build_request rnd cur rout) of
             LLMRaises \<Rightarrow> True | LLMOther \<Rightarrow> True
           | LLMDict d \<Rightarrow> ai_recommendations d = None \<or> ai_recommendations d = Some []"
  shows "generate_ai_recommendations F llm rnd cur rout ts st sg =
           Inr (RecList (fallback_recommendations F cur rout ts st))"
  using assms
  by (auto simp: generate_ai_recommendations_def Let_def opt_get_def split: ai_response.splits)

lemma fallback_recommendations_parts:
  "fallback_recommendations F cur rout ts st =
     take 8
      (concat (map (\<lambda>t. get_feature_recommendations (feature_name t) ''declining''
                            (current_value t) rout)
                   (take 2 (filter (\<lambda>t. trend t = ''declining'') ts))) @
       concat (map (\<lambda>k. get_feature_recommendations k ''stagnant''
                            (dict_get (features cur) k 0) rout)
                   (take 2 st)) @
       (if \<exists>h. sleep_hours rout = Some h \<and> h < 7
        then [''Increase sleep to 7-8 hours (currently '' @ str_opt F (sleep_hours rout) @
              ''h) - critical for skin recovery and repair'']
        else []) @
       (if \<exists>g. water_intake rout = Some g \<and> g < 6
        then [''Drink 8+ glasses of water daily (currently '' @ str_opt F (water_intake rout) @
              '') for optimal skin hydration'']
        else []))"
  by (cases "sleep_hours rout"; cases "water_intake rout")
     (simp_all add: fallback_recommendations_def Let_def opt_get_def)

lemma generate_smart_summary_failure:
  assumes "generate_ai_recommendations F llm rnd cur rout [] [] [] =
             Inr (RecList (fallback_recommendations F cur rout [] []))"
    and "\<And>ts. generate_ai_recommendations F llm rnd cur rout ts (detect_stagnation fl hist cur)
              (detect_significant_changes ts) =
             Inr (RecList (fallback_recommendations F cur rout ts (detect_stagnation fl hist cur)))"
  shows "\<exists>s. generate_smart_summary fl F llm rnd cur rout hist = Inr s \<and>
             natural_remedies s = [] \<and> product_recommendations s = [] \<and>
             lifestyle_tip s = None \<and>
             recommendations s =
               (if length hist < 2 then take 6 (fallback_recommendations F cur rout [] [])
                else fallback_recommendations F cur rout
                       (case analyze_feature_trends fl cur hist of Inr ts \<Rightarrow> ts | Inl e \<Rightarrow> [])
                       (detect_stagnation fl hist cur)) \<and>
             generate_smart_summary fl F (\<lambda>req. LLMRaises) other_rnd cur rout hist = Inr s"
proof (cases "length hist < 2")
  case True
  have r: "generate_ai_recommendations F (\<lambda>req. LLMRaises) other_rnd cur rout [] [] [] =
             Inr (RecList (fallback_recommendations F cur rout [] []))"
    by (simp add: generate_ai_recommendations_def)
  from True assms(1) r show ?thesis
    by (simp add: generate_smart_summary_def baseline_summary_def Let_def)
next
  case False
  then have "length hist \<ge> 2" by simp
  from analyze_feature_trends_Inr [OF this, where cur = cur and fl = fl] obtain ts where
    a: "analyze_feature_trends fl cur hist = Inr ts" by blast
  have r: "generate_ai_recommendations F (\<lambda>req. LLMRaises) other_rnd cur rout ts
             (detect_stagnation fl hist cur) (detect_significant_changes ts) =
             Inr (RecList (fallback_recommendations F cur rout ts (detect_stagnation fl hist cur)))"
    by (simp add: generate_ai_recommendations_def)
  from False a assms(2) [of ts] r show ?thesis
    by (simp add: generate_smart_summary_def Let_def)
qed

text \<open>
  Claim C2. When the generative collaborator raises, or returns something that is not a
  non-empty dict, or returns a dict whose recommendations are absent or empty, the
  recommendations come from the rule engine alone: up to 2 texts for the first two
  declining trends, up to 2 for the first two stagnant features, a sleep text if the
  sleep hours are below 7 and a water text if the water intake is below 6, cut at 8.
  The summary then has at most 8 recommendations, no natural remedies, no product
  recommendations and no lifestyle tip, and it is the summary obtained when the
  collaborator raises: nothing of the response is blended in.
\<close>

theorem generative_failure_total_replacement:
  assumes "case llm (build_request rnd cur rout) of
             LLMRaises \<Rightarrow> True | LLMOther \<Rightarrow> True
           | LLMDict d \<Rightarrow> ai_recommendations d = None \<or> ai_recommendations d = Some []"
  shows "(\<forall>feature_trends stagnant_feats significant_changes.
           \<exists>declining_recs stagnant_recs sleep_rec water_rec.
             generate_ai_recommendations F llm rnd cur rout feature_trends stagnant_feats
                 significant_changes =
               Inr (RecList (take 8 (declining_recs @ stagnant_recs @ sleep_rec @ water_rec))) \<and>
             declining_recs =
               concat (map (\<lambda>t. get_feature_recommendations (feature_name t) ''declining''
                                   (current_value t) rout)
                           (take 2 (filter (\<lambda>t. trend t = ''declining'') feature_trends))) \<and>
             length declining_recs \<le> 2 \<and>
             stagnant_recs =
               concat (map (\<lambda>k. get_feature_recommendations k ''stagnant''
                                   (dict_get (features cur) k 0) rout)
                           (take 2 stagnant_feats)) \<and>
             length stagnant_recs \<le> 2 \<and>
             sleep_rec =
               (if \<exists>h. sleep_hours rout = Some h \<and> h < 7
                then [''Increase sleep to 7-8 hours (currently '' @
                      str_opt F (sleep_hours rout) @
                      ''h) - critical for skin recovery and repair'']
                else []) \<and>
             water_rec =
               (if \<exists>g. water_intake rout = Some g \<and> g < 6
                then [''Drink 8+ glasses of water daily (currently '' @
                      str_opt F (water_intake rout) @ '') for optimal skin hydration'']
                else [])) \<and>
         (\<exists>s. generate_smart_summary fl F llm rnd cur rout hist = Inr s \<and>
              length (recommendations s) \<le> 8 \<and>
              natural_remedies s = [] \<and> product_recommendations s = [] \<and>
              lifestyle_tip s = None \<and>
              generate_smart_summary fl F (\<lambda>req. LLMRaises) other_rnd cur rout hist = Inr s)"
proof (rule conjI)
  have f: "generate_ai_recommendations F llm rnd cur rout ts st sg =
           Inr (RecList (fallback_recommendations F cur rout ts st))" for ts st sg
    using assms by (rule generate_ai_recommendations_failure)
  have d: "length (concat (map (\<lambda>t. get_feature_recommendations (feature_name t) ''declining''
                                   (current_value t) rout)
                           (take 2 (filter (\<lambda>t. trend t = ''declining'') ts)))) \<le> 2"
    for ts :: "feature_trend list"
    by (rule concat_map_take2_length) (rule get_feature_recommendations_length)
  have g: "length (concat (map (\<lambda>k. get_feature_recommendations k ''stagnant''
                                   (dict_get (features cur) k 0) rout)
                           (take 2 st))) \<le> 2" for st
    by (rule concat_map_take2_length) (rule get_feature_recommendations_length)
  show "\<forall>feature_trends stagnant_feats significant_changes.
           \<exists>declining_recs stagnant_recs sleep_rec water_rec.
             generate_ai_recommendations F llm rnd cur rout feature_trends stagnant_feats
                 significant_changes =
               Inr (RecList (take 8 (declining_recs @ stagnant_recs @ sleep_rec @ water_rec))) \<and>
             declining_recs =
               concat (map (\<lambda>t. get_feature_recommendations (feature_name t) ''declining''
                                   (current_value t) rout)
                           (take 2 (filter (\<lambda>t. trend t = ''declining'') feature_trends))) \<and>
             length declining_recs \<le> 2 \<and>
             stagnant_recs =
               concat (map (\<lambda>k. get_feature_recommendations k ''stagnant''
                                   (dict_get (features cur) k 0) rout)
                           (take 2 stagnant_feats)) \<and>
             length stagnant_recs \<le> 2 \<and>
             sleep_rec =
               (if \<exists>h. sleep_hours rout = Some h \<and> h < 7
                then [''Increase sleep to 7-8 hours (currently '' @
                      str_opt F (sleep_hours rout) @
                      ''h) - critical for skin recovery and repair'']
                else []) \<and>
             water_rec =
               (if \<exists>g. water_intake rout = Some g \<and> g < 6
                then [''Drink 8+ glasses of water daily (currently '' @
                      str_opt F (water_intake rout) @ '') for optimal skin hydration'']
                else [])"
    using d g by (simp only: f fallback_recommendations_parts) blast
  from generate_smart_summary_failure [where F = F and llm = llm and rnd = rnd and cur = cur
      and rout = rout and hist = hist and fl = fl and other_rnd = other_rnd, OF f f]
  obtain s where s: "generate_smart_summary fl F llm rnd cur rout hist = Inr s"
    "natural_remedies s = []" "product_recommendations s = []" "lifestyle_tip s = None"
    "recommendations s =
               (if length hist < 2 then take 6 (fallback_recommendations F cur rout [] [])
                else fallback_recommendations F cur rout
                       (case analyze_feature_trends fl cur hist of Inr ts \<Rightarrow> ts | Inl e \<Rightarrow> [])
                       (detect_stagnation fl hist cur))"
    "generate_smart_summary fl F (\<lambda>req. LLMRaises) other_rnd cur rout hist = Inr s"
    by blast
  have "length (recommendations s) \<le> 8"
    using fallback_recommendations_length [of F cur rout
           "case analyze_feature_trends fl cur hist of Inr ts \<Rightarrow> ts | Inl e \<Rightarrow> []"
           "detect_stagnation fl hist cur"]
    by (auto simp: s(5))
  with s show "\<exists>s. generate_smart_summary fl F llm rnd cur rout hist = Inr s \<and>
              length (recommendations s) \<le> 8 \<and>
              natural_remedies s = [] \<and> product_recommendations s = [] \<and>
              lifestyle_tip s = None \<and>
              generate_smart_summary fl F (\<lambda>req. LLMRaises) other_rnd cur rout hist = Inr s"
    by blast
qed

theorem generative_failure_total_replacement_witness:
  "\<exists>s. generate_smart_summary id
          \<lparr>str_num = (\<lambda>x. ''''), str_int = (\<lambda>i. ''''), fmt_f = (\<lambda>n x. '''')\<rparr>
          (\<lambda>req. LLMDict \<lparr>ai_recommendations = Some [], ai_natural_remedies = Some [''x''], ai_product_recommendations = Some [''y'']\<rparr>)
          0 \<lparr>features = [(''texture'', 20)], sleep_score = 70, skin_health_score = 70\<rparr>
          \<lparr>sleep_hours = Some 5, water_intake = Some 8\<rparr> [] = Inr s \<and>
      length (recommendations s) \<le> 8 \<and>
      natural_remedies s = [] \<and> product_recommendations s = [] \<and> lifestyle_tip s = None"
proof -
  let ?F = "\<lparr>str_num = (\<lambda>x. ''''), str_int = (\<lambda>i. ''''), fmt_f = (\<lambda>n x. '''')\<rparr>"
  let ?llm = "(\<lambda>req. LLMDict \<lparr>ai_recommendations = Some [], ai_natural_remedies = Some [''x''], ai_product_recommendations = Some [''y'']\<rparr>)"
  let ?c = "\<lparr>features = [(''texture'', 20)], sleep_score = 70, skin_health_score = 70\<rparr>"
  let ?r = "\<lparr>sleep_hours = Some 5, water_intake = Some 8\<rparr>"
  have a: "case ?llm (build_request 0 ?c ?r) of
             LLMRaises \<Rightarrow> True | LLMOther \<Rightarrow> True
           | LLMDict d \<Rightarrow> ai_recommendations d = None \<or> ai_recommendations d = Some []"
    by simp
  from generative_failure_total_replacement [where fl = id and llm = ?llm and rnd = 0 and cur = ?c
      and rout = ?r and F = ?F and hist = "[]" and other_rnd = 0, OF a]
  show ?thesis by blast
qed

subsection \<open>The baseline branch\<close>

lemma lowest_two:
  fixes fs :: "(string \<times> real) list"
  shows "sorted (map snd (take 2 (sort_key snd fs))) \<and>
         set (take 2 (sort_key snd fs)) \<union> set (drop 2 (sort_key snd fs)) = set fs \<and>
         (\<forall>x \<in> set (drop 2 (sort_key snd fs)). \<forall>y \<in> set (take 2 (sort_key snd fs)).
            snd y \<le> snd x)"
proof -
  let ?xs = "sort_key snd fs"
  have s: "sorted (map snd ?xs)" by (rule sorted_sort_key)
  have "map snd ?xs = map snd (take 2 ?xs) @ map snd (drop 2 ?xs)"
    by (simp flip: map_append)
  with s have a: "sorted (map snd (take 2 ?xs) @ map snd (drop 2 ?xs))" by simp
  then have "sorted (map snd (take 2 ?xs))"
    and "\<forall>y \<in> set (map snd (take 2 ?xs)). \<forall>x \<in> set (map snd (drop 2 ?xs)). y \<le> x"
    by (simp_all add: sorted_append)
  moreover have "set (take 2 ?xs) \<union> set (drop 2 ?xs) = set fs"
    by (simp flip: set_append)
  ultimately show ?thesis by auto
qed

text \<open>
  Claim C7. With fewer than 2 historical samples the summary is the baseline one. It
  is returned whatever the history holds (no trend and no stagnation computation: the
  three trend lists are empty and every feature key is listed as stable). Its key
  insights are one text for each of the first two features of the current sample in
  ascending order of score (all features, if there are fewer than two), and every other
  feature scores at least as much as these. The recommendations are those of
  \<open>generate_ai_recommendations\<close> called with empty trends, stagnation flags and
  changes, cut at 6. The daily summary is the ``Welcome! Your baseline ...'' text. For
  the features brightness 80, texture 20, dark circles 55 the insights name the skin
  texture first and the dark circles second.
\<close>

theorem baseline_branch:
  assumes "length hist < 2"
  shows "\<exists>s. generate_smart_summary fl F llm rnd cur rout hist = Inr s \<and>
           key_insights s =
             map (\<lambda>(k, v). display_name k @ '': '' @ fmt_f F 0 v @
                            ''/100 - looks good but can improve'')
                 (take 2 (sort_key snd (features cur))) \<and>
           sorted (map snd (take 2 (sort_key snd (features cur)))) \<and>
           set (take 2 (sort_key snd (features cur))) \<union>
             set (drop 2 (sort_key snd (features cur))) = set (features cur) \<and>
           (\<forall>x \<in> set (drop 2 (sort_key snd (features cur))).
              \<forall>y \<in> set (take 2 (sort_key snd (features cur))). snd y \<le> snd x) \<and>
           trend_analysis s =
             \<lparr>improving_features = [], declining_features = [], stagnant_features = [],
              stable_features = map fst (features cur)\<rparr> \<and>
           (case generate_ai_recommendations F llm rnd cur rout [] [] [] of
              Inr (RecDict d) \<Rightarrow>
                recommendations s = take 6 (rec_recommendations d) \<and>
                natural_remedies s = rec_natural_remedies d \<and>
                product_recommendations s = rec_product_recommendations d \<and>
                lifestyle_tip s = Some (rec_lifestyle_tip d)
            | Inr (RecList l) \<Rightarrow>
                recommendations s = take 6 l \<and> natural_remedies s = [] \<and>
                product_recommendations s = [] \<and> lifestyle_tip s = None
            | Inl e \<Rightarrow> False) \<and>
           daily_summary s =
             ''Welcome! Your baseline Sleep Score is '' @ str_num F (sleep_score cur) @
             '' and Skin Health Score is '' @ str_num F (skin_health_score cur) @
             ''. Keep taking daily selfies to track your progress!'' \<and>
           model s = ''Hybrid (Local + AI) - TESTING MODE'' \<and>
           data_points_analyzed s = length hist"
proof -
  let ?s = "baseline_summary F llm rnd cur rout hist"
  have e: "generate_smart_summary fl F llm rnd cur rout hist = Inr ?s"
    using assms by (simp add: generate_smart_summary_def)
  have k: "key_insights ?s =
             map (\<lambda>(k, v). display_name k @ '': '' @ fmt_f F 0 v @
                            ''/100 - looks good but can improve'')
                 (take 2 (sort_key snd (features cur)))"
    by (simp add: baseline_summary_def Let_def baseline_insight_def split: prod.splits)
  have t: "trend_analysis ?s =
             \<lparr>improving_features = [], declining_features = [], stagnant_features = [],
              stable_features = map fst (features cur)\<rparr>"
    by (simp add: baseline_summary_def Let_def split: prod.splits)
  have d: "daily_summary ?s =
             ''Welcome! Your baseline Sleep Score is '' @ str_num F (sleep_score cur) @
             '' and Skin Health Score is '' @ str_num F (skin_health_score cur) @
             ''. Keep taking daily selfies to track your progress!''"
    and m: "model ?s = ''Hybrid (Local + AI) - TESTING MODE''"
    and n: "data_points_analyzed ?s = length hist"
    by (simp_all add: baseline_summary_def Let_def split: prod.splits)
  have r: "case generate_ai_recommendations F llm rnd cur rout [] [] [] of
              Inr (RecDict d) \<Rightarrow>
                recommendations ?s = take 6 (rec_recommendations d) \<and>
                natural_remedies ?s = rec_natural_remedies d \<and>
                product_recommendations ?s = rec_product_recommendations d \<and>
                lifestyle_tip ?s = Some (rec_lifestyle_tip d)
            | Inr (RecList l) \<Rightarrow>
                recommendations ?s = take 6 l \<and> natural_remedies ?s = [] \<and>
                product_recommendations ?s = [] \<and> lifestyle_tip ?s = None
            | Inl e \<Rightarrow> False"
    using generate_ai_recommendations_cases [of F llm rnd cur rout "[]" "[]" "[]"]
    by (auto simp: baseline_summary_def Let_def)
  from e k t d m n r lowest_two [of "features cur"] show ?thesis by blast
qed

theorem baseline_branch_witness:
  "\<exists>s. generate_smart_summary id
          \<lparr>str_num = (\<lambda>x. ''''), str_int = (\<lambda>i. ''''), fmt_f = (\<lambda>n x. if x = 20 then ''20'' else if x = 55 then ''55'' else ''80'')\<rparr>
          (\<lambda>req. LLMRaises) 0
          \<lparr>features = [(''brightness'', 80), (''texture'', 20), (''dark_circles'', 55)], sleep_score = 70, skin_health_score = 70\<rparr>
          \<lparr>sleep_hours = Some 5, water_intake = Some 8\<rparr> [] = Inr s \<and>
        key_insights s =
          [''Skin Texture: 20/100 - looks good but can improve'',
           ''Dark Circles: 55/100 - looks good but can improve''] \<and>
        trend_analysis s =
          \<lparr>improving_features = [], declining_features = [], stagnant_features = [],
           stable_features = [''brightness'', ''texture'', ''dark_circles'']\<rparr> \<and>
        model s = ''Hybrid (Local + AI) - TESTING MODE''"
proof -
  let ?F = "\<lparr>str_num = (\<lambda>x. ''''), str_int = (\<lambda>i. ''''), fmt_f = (\<lambda>n x. if x = 20 then ''20'' else if x = 55 then ''55'' else ''80'')\<rparr>"
  let ?c = "\<lparr>features = [(''brightness'', 80), (''texture'', 20), (''dark_circles'', 55)], sleep_score = 70, skin_health_score = 70\<rparr>"
  let ?r = "\<lparr>sleep_hours = Some 5, water_intake = Some 8\<rparr>"
  have l: "length ([] :: sample list) < 2" by simp
  from baseline_branch [where fl = id and F = ?F and llm = "\<lambda>req. LLMRaises" and rnd = 0 and cur = ?c
      and rout = ?r and hist = "[]", OF l]
  obtain s where e: "generate_smart_summary id ?F (\<lambda>req. LLMRaises) 0 ?c ?r [] = Inr s"
    and k: "key_insights s =
             map (\<lambda>(k, v). display_name k @ '': '' @ fmt_f ?F 0 v @
                            ''/100 - looks good but can improve'')
                 (take 2 (sort_key snd (features ?c)))"
    and t: "trend_analysis s =
             \<lparr>improving_features = [], declining_features = [], stagnant_features = [],
              stable_features = map fst (features ?c)\<rparr>"
    and m: "model s = ''Hybrid (Local + AI) - TESTING MODE''"
    by blast
  from k have "key_insights s =
          [''Skin Texture: 20/100 - looks good but can improve'',
           ''Dark Circles: 55/100 - looks good but can improve'']"
    by (simp add: display_name_def dict_get_def FEATURE_NAMES_def)
  moreover from t have "trend_analysis s =
          \<lparr>improving_features = [], declining_features = [], stagnant_features = [],
           stable_features = [''brightness'', ''texture'', ''dark_circles'']\<rparr>"
    by simp
  ultimately show ?thesis using e m by blast
qed

subsection \<open>The trend lists of the summary\<close>

lemma trend_determined_by_name:
  assumes "analyze_feature_trends fl cur hist = Inr ts" and "hist \<noteq> []"
    and "t \<in> set ts" and "u \<in> set ts" and "feature_name u = feature_name t"
  shows "trend u = trend t"
proof -
  have c: "change x =
             fl (fl (arithmetic_mean (feature_values (feature_name x) (recent_period hist)))
                 - fl (arithmetic_mean
                         (feature_values (feature_name x) (comparison_period hist)))) \<and>
           trend x = fst (determine_trend (change x))"
    if "x \<in> set ts" for x
  proof -
    from collect_Inr_member [OF assms(1) [unfolded analyze_feature_trends_def] that]
    obtain item where
      i: "analyze_feature fl (recent_period hist) (comparison_period hist) item = Inr x"
      by blast
    from analyze_feature_total [OF recent_period_nonempty [OF assms(2)]
        comparison_period_nonempty [OF assms(2)], where item = item and fl = fl] i
    have "feature_name x = fst item"
      and "change x =
             fl (fl (arithmetic_mean (feature_values (fst item) (recent_period hist)))
                 - fl (arithmetic_mean (feature_values (fst item) (comparison_period hist))))"
      by auto
    with analyze_feature_Inr [OF i] show ?thesis by simp
  qed
  from c [OF assms(3)] c [OF assms(4)] assms(5) show ?thesis by simp
qed

lemma analyze_feature_trends_names:
  assumes "hist \<noteq> []"
  shows "\<exists>ts. analyze_feature_trends fl cur hist = Inr ts \<and>
           map feature_name ts = map fst (features cur)"
  using analyze_feature_trends_change [OF assms, where cur = cur and fl = fl] by blast

lemma normal_branch_fields:
  assumes "length hist \<ge> 2" and "analyze_feature_trends fl cur hist = Inr ts"
  shows "\<exists>s. generate_smart_summary fl F llm rnd cur rout hist = Inr s \<and>
           trend_analysis s =
             \<lparr>improving_features =
                map feature_name (filter (\<lambda>t. trend t = ''improving'') ts),
              declining_features =
                map feature_name (filter (\<lambda>t. trend t = ''declining'') ts),
              stagnant_features = detect_stagnation fl hist cur,
              stable_features =
                map feature_name (filter (\<lambda>t. trend t = ''stable'') ts)\<rparr> \<and>
           daily_summary s =
             generate_daily_summary F cur ts (detect_significant_changes ts)
               (detect_stagnation fl hist cur) rout \<and>
           key_insights s =
             generate_key_insights F ts (detect_significant_changes ts)
               (detect_stagnation fl hist cur) \<and>
           data_points_analyzed s = length hist"
proof -
  from assms(1) have n: "\<not> length hist < 2" by simp
  from generate_ai_recommendations_cases [of F llm rnd cur rout ts
      "detect_stagnation fl hist cur" "detect_significant_changes ts"]
  show ?thesis
  proof
    assume "generate_ai_recommendations F llm rnd cur rout ts (detect_stagnation fl hist cur)
              (detect_significant_changes ts) =
            Inr (RecList (fallback_recommendations F cur rout ts (detect_stagnation fl hist cur)))"
    with n assms(2) show ?thesis
      by (simp add: generate_smart_summary_def Let_def)
  next
    assume "\<exists>d. generate_ai_recommendations F llm rnd cur rout ts (detect_stagnation fl hist cur)
              (detect_significant_changes ts) = Inr (RecDict d) \<and>
        length (rec_recommendations d) \<le> 5 \<and>
        length (rec_natural_remedies d) \<le> 2 \<and>
        length (rec_product_recommendations d) \<le> 2 \<and>
        rec_lifestyle_tip d = get_lifestyle_recommendation F rout"
    then obtain d where
      "generate_ai_recommendations F llm rnd cur rout ts (detect_stagnation fl hist cur)
              (detect_significant_changes ts) = Inr (RecDict d)" by blast
    with n assms(2) show ?thesis
      by (simp add: generate_smart_summary_def Let_def)
  qed
qed

text \<open>
  Claim C10. With at least 2 historical samples the summary's improving, declining and
  stable lists are the feature names of the trend records with that classification,
  while its stagnant list is the result of the stagnation detector. So a feature whose
  trend is classified stagnant and which the detector does not flag is in none of the
  four lists: the lists do not partition the features of the current sample.
\<close>

theorem trend_buckets_not_a_partition:
  assumes "length hist \<ge> 2"
  shows "\<exists>s ts. generate_smart_summary fl F llm rnd cur rout hist = Inr s \<and>
           analyze_feature_trends fl cur hist = Inr ts \<and>
           map feature_name ts = map fst (features cur) \<and>
           improving_features (trend_analysis s) =
             map feature_name (filter (\<lambda>t. trend t = ''improving'') ts) \<and>
           declining_features (trend_analysis s) =
             map feature_name (filter (\<lambda>t. trend t = ''declining'') ts) \<and>
           stable_features (trend_analysis s) =
             map feature_name (filter (\<lambda>t. trend t = ''stable'') ts) \<and>
           stagnant_features (trend_analysis s) = detect_stagnation fl hist cur \<and>
           (\<forall>t \<in> set ts.
              trend t = ''stagnant'' \<and> feature_name t \<notin> set (detect_stagnation fl hist cur) \<longrightarrow>
              feature_name t \<notin> set (improving_features (trend_analysis s)) \<and>
              feature_name t \<notin> set (declining_features (trend_analysis s)) \<and>
              feature_name t \<notin> set (stagnant_features (trend_analysis s)) \<and>
              feature_name t \<notin> set (stable_features (trend_analysis s)))"
proof -
  from assms have ne: "hist \<noteq> []" by auto
  from analyze_feature_trends_names [OF ne, where cur = cur and fl = fl] obtain ts where
    a: "analyze_feature_trends fl cur hist = Inr ts"
    and m: "map feature_name ts = map fst (features cur)" by blast
  from normal_branch_fields [OF assms a, of F llm rnd rout] obtain s where
    e: "generate_smart_summary fl F llm rnd cur rout hist = Inr s"
    and b: "trend_analysis s =
             \<lparr>improving_features =
                map feature_name (filter (\<lambda>t. trend t = ''improving'') ts),
              declining_features =
                map feature_name (filter (\<lambda>t. trend t = ''declining'') ts),
              stagnant_features = detect_stagnation fl hist cur,
              stable_features =
                map feature_name (filter (\<lambda>t. trend t = ''stable'') ts)\<rparr>"
    by blast
  have out: "feature_name t \<notin> set (map feature_name (filter (\<lambda>t. trend t = other) ts))"
    if "t \<in> set ts" "trend t = ''stagnant''" "other \<noteq> ''stagnant''" for t other
  proof
    assume "feature_name t \<in> set (map feature_name (filter (\<lambda>t. trend t = other) ts))"
    then obtain u where u: "u \<in> set ts" "trend u = other" "feature_name u = feature_name t"
      by auto
    from trend_determined_by_name [OF a ne that(1) u(1) u(3)] that(2) u(2) that(3)
    show False by simp
  qed
  have "\<forall>t \<in> set ts.
              trend t = ''stagnant'' \<and> feature_name t \<notin> set (detect_stagnation fl hist cur) \<longrightarrow>
              feature_name t \<notin> set (improving_features (trend_analysis s)) \<and>
              feature_name t \<notin> set (declining_features (trend_analysis s)) \<and>
              feature_name t \<notin> set (stagnant_features (trend_analysis s)) \<and>
              feature_name t \<notin> set (stable_features (trend_analysis s))"
  proof (intro ballI impI)
    fix t assume t: "t \<in> set ts"
      and h: "trend t = ''stagnant'' \<and> feature_name t \<notin> set (detect_stagnation fl hist cur)"
    from out [OF t, of "''improving''"] out [OF t, of "''declining''"]
      out [OF t, of "''stable''"] h
    show "feature_name t \<notin> set (improving_features (trend_analysis s)) \<and>
              feature_name t \<notin> set (declining_features (trend_analysis s)) \<and>
              feature_name t \<notin> set (stagnant_features (trend_analysis s)) \<and>
              feature_name t \<notin> set (stable_features (trend_analysis s))"
      by (simp add: b)
  qed
  with e a m b show ?thesis by simp
qed

theorem trend_buckets_not_a_partition_witness:
  "\<exists>s t. generate_smart_summary id
          \<lparr>str_num = (\<lambda>x. ''''), str_int = (\<lambda>i. ''''), fmt_f = (\<lambda>n x. '''')\<rparr>
          (\<lambda>req. LLMRaises) 0
          \<lparr>features = [(''texture'', 70)], sleep_score = 70, skin_health_score = 70\<rparr>
          \<lparr>sleep_hours = Some 5, water_intake = Some 8\<rparr>
          [\<lparr>features = [(''texture'', 70)], sleep_score = 70, skin_health_score = 70\<rparr>,
           \<lparr>features = [(''texture'', 70)], sleep_score = 70, skin_health_score = 70\<rparr>] = Inr s \<and>
        analyze_feature_trends id
          \<lparr>features = [(''texture'', 70)], sleep_score = 70, skin_health_score = 70\<rparr>
          [\<lparr>features = [(''texture'', 70)], sleep_score = 70, skin_health_score = 70\<rparr>,
           \<lparr>features = [(''texture'', 70)], sleep_score = 70, skin_health_score = 70\<rparr>] = Inr [t] \<and>
        feature_name t = ''texture'' \<and> trend t = ''stagnant'' \<and>
        trend_analysis s =
          \<lparr>improving_features = [], declining_features = [], stagnant_features = [],
           stable_features = []\<rparr>"
proof -
  let ?F = "\<lparr>str_num = (\<lambda>x. ''''), str_int = (\<lambda>i. ''''), fmt_f = (\<lambda>n x. '''')\<rparr>"
  let ?c = "\<lparr>features = [(''texture'', 70)], sleep_score = 70, skin_health_score = 70\<rparr>"
  let ?r = "\<lparr>sleep_hours = Some 5, water_intake = Some 8\<rparr>"
  let ?h = "[?c, ?c]"
  have l: "length ?h \<ge> 2" by simp
  obtain t where a: "analyze_feature_trends id ?c ?h = Inr [t]"
    and n: "feature_name t = ''texture''" and g: "trend t = ''stagnant''"
    by (simp add: analyze_feature_trends_def analyze_feature_def recent_period_def
        comparison_period_def feature_values_def statistics_mean_def dict_get_def Let_def
        determine_trend_def IMPROVEMENT_THRESHOLD_def DECLINE_THRESHOLD_def
        STAGNATION_THRESHOLD_def)
  have d: "detect_stagnation id ?h ?c = []"
    by (simp add: detect_stagnation_def STAGNATION_DURATION_def)
  from trend_buckets_not_a_partition [where fl = id and F = ?F and llm = "\<lambda>req. LLMRaises" and rnd = 0
      and cur = ?c and rout = ?r and hist = ?h, OF l]
  obtain s ts where e: "generate_smart_summary id ?F (\<lambda>req. LLMRaises) 0 ?c ?r ?h = Inr s"
    and a': "analyze_feature_trends id ?c ?h = Inr ts"
    and i: "improving_features (trend_analysis s) =
             map feature_name (filter (\<lambda>t. trend t = ''improving'') ts)"
    and dc: "declining_features (trend_analysis s) =
             map feature_name (filter (\<lambda>t. trend t = ''declining'') ts)"
    and st: "stable_features (trend_analysis s) =
             map feature_name (filter (\<lambda>t. trend t = ''stable'') ts)"
    and sg: "stagnant_features (trend_analysis s) = detect_stagnation id ?h ?c"
    by blast
  from a a' have ts: "ts = [t]" by simp
  from i dc st sg have "trend_analysis s =
          \<lparr>improving_features = [], declining_features = [], stagnant_features = [],
           stable_features = []\<rparr>"
    by (cases "trend_analysis s") (simp add: ts g d)
  with e a n g show ?thesis by blast
qed

subsection \<open>Independence of the random prompt variation\<close>

lemma baseline_summary_local_fields:
  "trend_analysis (baseline_summary F llm rnd cur rout hist) =
     \<lparr>improving_features = [], declining_features = [], stagnant_features = [],
      stable_features = map fst (features cur)\<rparr> \<and>
   daily_summary (baseline_summary F llm rnd cur rout hist) =
     ''Welcome! Your baseline Sleep Score is '' @ str_num F (sleep_score cur) @
     '' and Skin Health Score is '' @ str_num F (skin_health_score cur) @
     ''. Keep taking daily selfies to track your progress!'' \<and>
   key_insights (baseline_summary F llm rnd cur rout hist) =
     take 5 (map (baseline_insight F) (take 2 (sort_key snd (features cur))))"
  by (simp add: baseline_summary_def Let_def split: prod.splits)

text \<open>
  Claim C9. The trend analysis takes the current sample and the history and nothing
  else. Two runs of the summary on the same current sample, routine and history, with
  any two outcomes of the random choice of the prompt variation and any two behaviours
  of the generative collaborator, both return, and they agree on the trend lists, on
  the daily summary and on the key insights; with at least 2 historical samples these
  are computed from the one list of trend records that the analysis returns for the
  current sample and the history.
\<close>

theorem trend_analysis_deterministic:
  "\<exists>s s'. generate_smart_summary fl F llm rnd cur rout hist = Inr s \<and>
          generate_smart_summary fl F llm' rnd' cur rout hist = Inr s' \<and>
          trend_analysis s = trend_analysis s' \<and>
          daily_summary s = daily_summary s' \<and>
          key_insights s = key_insights s' \<and>
          (2 \<le> length hist \<longrightarrow>
             (\<exists>ts. analyze_feature_trends fl cur hist = Inr ts \<and>
                map feature_name ts = map fst (features cur) \<and>
                improving_features (trend_analysis s) =
                  map feature_name (filter (\<lambda>t. trend t = ''improving'') ts) \<and>
                declining_features (trend_analysis s) =
                  map feature_name (filter (\<lambda>t. trend t = ''declining'') ts) \<and>
                stable_features (trend_analysis s) =
                  map feature_name (filter (\<lambda>t. trend t = ''stable'') ts) \<and>
                key_insights s =
                  generate_key_insights F ts (detect_significant_changes ts)
                    (detect_stagnation fl hist cur)))"
proof (cases "length hist < 2")
  case True
  then have "generate_smart_summary fl F llm rnd cur rout hist =
               Inr (baseline_summary F llm rnd cur rout hist)"
    and "generate_smart_summary fl F llm' rnd' cur rout hist =
               Inr (baseline_summary F llm' rnd' cur rout hist)"
    by (simp_all add: generate_smart_summary_def)
  with True show ?thesis
    by (simp add: baseline_summary_local_fields)
next
  case False
  then have l: "length hist \<ge> 2" by simp
  then have ne: "hist \<noteq> []" by auto
  from analyze_feature_trends_names [OF ne, where cur = cur and fl = fl] obtain ts where
    a: "analyze_feature_trends fl cur hist = Inr ts"
    and m: "map feature_name ts = map fst (features cur)" by blast
  from normal_branch_fields [OF l a, of F llm rnd rout] obtain s where
    s: "generate_smart_summary fl F llm rnd cur rout hist = Inr s"
      "trend_analysis s =
             \<lparr>improving_features =
                map feature_name (filter (\<lambda>t. trend t = ''improving'') ts),
              declining_features =
                map feature_name (filter (\<lambda>t. trend t = ''declining'') ts),
              stagnant_features = detect_stagnation fl hist cur,
              stable_features =
                map feature_name (filter (\<lambda>t. trend t = ''stable'') ts)\<rparr>"
      "daily_summary s =
             generate_daily_summary F cur ts (detect_significant_changes ts)
               (detect_stagnation fl hist cur) rout"
      "key_insights s =
             generate_key_insights F ts (detect_significant_changes ts)
               (detect_stagnation fl hist cur)"
    by blast
  from normal_branch_fields [OF l a, of F llm' rnd' rout] obtain s' where
    s': "generate_smart_summary fl F llm' rnd' cur rout hist = Inr s'"
      "trend_analysis s' =
             \<lparr>improving_features =
                map feature_name (filter (\<lambda>t. trend t = ''improving'') ts),
              declining_features =
                map feature_name (filter (\<lambda>t. trend t = ''declining'') ts),
              stagnant_features = detect_stagnation fl hist cur,
              stable_features =
                map feature_name (filter (\<lambda>t. trend t = ''stable'') ts)\<rparr>"
      "daily_summary s' =
             generate_daily_summary F cur ts (detect_significant_changes ts)
               (detect_stagnation fl hist cur) rout"
      "key_insights s' =
             generate_key_insights F ts (detect_significant_changes ts)
               (detect_stagnation fl hist cur)"
    by blast
  from s s' a m show ?thesis by simp
qed

theorem trend_analysis_deterministic_witness:
  "\<exists>s s'. generate_smart_summary id
          \<lparr>str_num = (\<lambda>x. ''''), str_int = (\<lambda>i. ''''), fmt_f = (\<lambda>n x. '''')\<rparr>
          (\<lambda>req. if variation_seed req = ''Focus on innovative skincare'' then LLMDict \<lparr>ai_recommendations = Some [''a''], ai_natural_remedies = None, ai_product_recommendations = None\<rparr> else LLMRaises)
          0 \<lparr>features = [(''texture'', 40)], sleep_score = 70, skin_health_score = 70\<rparr>
          \<lparr>sleep_hours = Some 5, water_intake = Some 8\<rparr>
          [\<lparr>features = [(''texture'', 32)], sleep_score = 70, skin_health_score = 70\<rparr>,
           \<lparr>features = [(''texture'', 40)], sleep_score = 70, skin_health_score = 70\<rparr>] = Inr s \<and>
        generate_smart_summary id
          \<lparr>str_num = (\<lambda>x. ''''), str_int = (\<lambda>i. ''''), fmt_f = (\<lambda>n x. '''')\<rparr>
          (\<lambda>req. if variation_seed req = ''Focus on innovative skincare'' then LLMDict \<lparr>ai_recommendations = Some [''a''], ai_natural_remedies = None, ai_product_recommendations = None\<rparr> else LLMRaises)
          1 \<lparr>features = [(''texture'', 40)], sleep_score = 70, skin_health_score = 70\<rparr>
          \<lparr>sleep_hours = Some 5, water_intake = Some 8\<rparr>
          [\<lparr>features = [(''texture'', 32)], sleep_score = 70, skin_health_score = 70\<rparr>,
           \<lparr>features = [(''texture'', 40)], sleep_score = 70, skin_health_score = 70\<rparr>] = Inr s' \<and>
        trend_analysis s = trend_analysis s' \<and>
        daily_summary s = daily_summary s' \<and>
        key_insights s = key_insights s' \<and>
        improving_features (trend_analysis s) = [''texture'']"
proof -
  let ?F = "\<lparr>str_num = (\<lambda>x. ''''), str_int = (\<lambda>i. ''''), fmt_f = (\<lambda>n x. '''')\<rparr>"
  let ?llm = "(\<lambda>req. if variation_seed req = ''Focus on innovative skincare'' then LLMDict \<lparr>ai_recommendations = Some [''a''], ai_natural_remedies = None, ai_product_recommendations = None\<rparr> else LLMRaises)"
  let ?c = "\<lparr>features = [(''texture'', 40)], sleep_score = 70, skin_health_score = 70\<rparr>"
  let ?r = "\<lparr>sleep_hours = Some 5, water_intake = Some 8\<rparr>"
  let ?h = "[\<lparr>features = [(''texture'', 32)], sleep_score = 70, skin_health_score = 70\<rparr>,
           \<lparr>features = [(''texture'', 40)], sleep_score = 70, skin_health_score = 70\<rparr>]"
  have l: "2 \<le> length ?h" by simp
  obtain t where a: "analyze_feature_trends id ?c ?h = Inr [t]"
    and n: "feature_name t = ''texture''" and g: "trend t = ''improving''"
    by (simp add: analyze_feature_trends_def analyze_feature_def recent_period_def
        comparison_period_def feature_values_def statistics_mean_def dict_get_def Let_def
        determine_trend_def IMPROVEMENT_THRESHOLD_def DECLINE_THRESHOLD_def
        STAGNATION_THRESHOLD_def)
  from trend_analysis_deterministic [where fl = id and F = ?F and llm = ?llm and llm' = ?llm
      and rnd = 0 and rnd' = 1 and cur = ?c and rout = ?r and hist = ?h] l
  obtain s s' ts where e: "generate_smart_summary id ?F ?llm 0 ?c ?r ?h = Inr s"
    and e': "generate_smart_summary id ?F ?llm 1 ?c ?r ?h = Inr s'"
    and q: "trend_analysis s = trend_analysis s'" "daily_summary s = daily_summary s'"
      "key_insights s = key_insights s'"
    and a': "analyze_feature_trends id ?c ?h = Inr ts"
    and i: "improving_features (trend_analysis s) =
                  map feature_name (filter (\<lambda>t. trend t = ''improving'') ts)"
    by blast
  from a a' have "ts = [t]" by simp
  with i n g have "improving_features (trend_analysis s) = [''texture'']" by simp
  with e e' q show ?thesis by blast
qed

end
